theory Spec2Isabelle
  imports Complex_Main
begin

section \<open>Order processing pipeline: data model\<close>

text \<open>
  The development models the HTTP-triggered function \<open>processOrder\<close> of
  \<open>src/functions/processOrder.ts\<close> together with the units it calls:
  the error classes and \<open>handleError\<close> of \<open>utils/errors.ts\<close>,
  \<open>withRetry\<close> of \<open>utils/retry.ts\<close>, the schema of
  \<open>schema/order.schema.ts\<close>, and the two service classes
  \<open>StorageService\<close> and \<open>MessagingService\<close>.

  Conventions of the embedding.
  \<^item> A number of a retry policy is a \<open>number\<close>: a finite double (the real it
    denotes), an infinity or NaN. Comparison and \<open>Math.min\<close> are exact on
    doubles and are defined; multiplication and \<open>Math.pow\<close> round, and are
    parameters (\<open>runtime\<close>). The numbers of a payload are finite and are
    reals. The loop counter of \<open>withRetry\<close>, a whole number from 1 to
    \<open>2 ^ 53\<close>, and HTTP status codes are \<open>int\<close>.
  \<^item> A loop that may run forever returns an \<open>option\<close>: \<open>None\<close> when it does
    not return.
  \<^item> A JavaScript string is a \<open>string\<close>.
  \<^item> A \<open>Date\<close> is its time value in milliseconds, \<open>None\<close> for an invalid date.
  \<^item> A thrown value is an element of \<open>thrown\<close>; a computation that may throw
    returns \<open>thrown + 'a\<close>, with \<open>Inl\<close> for the exception.
  \<^item> Everything outside the repository (the HTTP request, the clock, the UUID
    generator, the process environment, the two Azure SDK clients, the string
    checks of the schema library) is a field of the record \<open>externals\<close>; what
    the request changes is the record \<open>world\<close>, passed through every call.
  \<^item> Calls of \<open>context.log\<close>, \<open>context.warn\<close> and \<open>context.error\<close> have no
    influence on control flow or on the response and are left out.
\<close>

subsection \<open>types/Order.ts\<close>

datatype order_status = PENDING | APPROVED | REJECTED

type_synonym date = "int option"

record Order =
  id' :: string
  employeeId :: string
  bikeModel :: string
  startDate :: date
  endDate :: date
  status :: order_status
  price :: real
  currency :: string
  companyId :: string
  createdAt :: date
  updatedAt :: date

text \<open>\<open>CreateOrderRequest\<close>: the fields carry the prefix \<open>req_\<close>, a record field
  name being a constant of the theory.\<close>

record CreateOrderRequest =
  req_employeeId :: string
  req_bikeModel :: string
  req_startDate :: string
  req_endDate :: string
  req_price :: real
  req_currency :: string
  req_companyId :: string

subsection \<open>utils/errors.ts\<close>

text \<open>
  The values that the program throws or catches. \<open>ValidationError\<close> extends
  \<open>OrderProcessingError\<close> with code \<open>VALIDATION_ERROR\<close> and status 400;
  \<open>NativeError\<close> stands for every other value that has properties (\<open>Error\<close>,
  \<open>SyntaxError\<close>, \<open>TypeError\<close>, the errors of the SDKs); \<open>Undefined\<close> and
  \<open>Null\<close> are the two values that have none: a promise may reject with them,
  and \<open>Undefined\<close> is the value of the unassigned variable \<open>lastError\<close>.
\<close>

datatype thrown =
    ValidationError string "string list"
  | OrderProcessingError string string int
  | NativeError string
  | Undefined
  | Null

text \<open>The constructor \<open>new OrderProcessingError(message, code)\<close> with the default
  status code.\<close>

definition new_OrderProcessingError :: "string \<Rightarrow> string \<Rightarrow> thrown" where
  "new_OrderProcessingError message code = OrderProcessingError message code 500"

fun statusCode :: "thrown \<Rightarrow> int" where
  "statusCode (ValidationError message validationErrors) = 400"
| "statusCode (OrderProcessingError message code sc) = sc"
| "statusCode (NativeError message) = 500"
| "statusCode Undefined = 500"
| "statusCode Null = 500"

text \<open>Reading \<open>error.message\<close>: a \<open>TypeError\<close> on \<open>undefined\<close> and on \<open>null\<close>,
  whose message is that of the engine.\<close>

fun read_message :: "thrown \<Rightarrow> thrown + string" where
  "read_message (ValidationError msg validationErrors) = Inr msg"
| "read_message (OrderProcessingError msg c sc) = Inr msg"
| "read_message (NativeError msg) = Inr msg"
| "read_message Undefined =
     Inl (NativeError ''TypeError: Cannot read properties of undefined (reading message)'')"
| "read_message Null =
     Inl (NativeError ''TypeError: Cannot read properties of null (reading message)'')"

text \<open>The response: \<open>HttpResponseInit\<close> with its \<open>jsonBody\<close>; a key that the body
  does not have is \<open>None\<close>.\<close>

record jsonBody =
  success :: bool
  orderId :: "string option"
  message :: string
  errors :: "string list option"
  code :: "string option"

record HttpResponseInit =
  res_status :: int
  res_jsonBody :: jsonBody

fun handleError :: "thrown \<Rightarrow> HttpResponseInit" where
  "handleError (ValidationError msg validationErrors) =
     \<lparr>res_status = statusCode (ValidationError msg validationErrors),
      res_jsonBody = \<lparr>success = False, orderId = None, message = msg,
               errors = Some validationErrors, code = None\<rparr>\<rparr>"
| "handleError (OrderProcessingError msg c sc) =
     \<lparr>res_status = statusCode (OrderProcessingError msg c sc),
      res_jsonBody = \<lparr>success = False, orderId = None, message = msg,
               errors = None, code = Some c\<rparr>\<rparr>"
| "handleError other =
     \<lparr>res_status = 500,
      res_jsonBody = \<lparr>success = False, orderId = None, message = ''Internal server error'',
               errors = None, code = None\<rparr>\<rparr>"

subsection \<open>utils/retry.ts\<close>

text \<open>
  A JavaScript number: \<open>Num x\<close> is the finite double that denotes the real
  \<open>x\<close> (the two zeros are one), the other three are the values that are not
  finite. \<open>num_le\<close> is \<open><=\<close>, \<open>num_eq\<close> is \<open>===\<close> and \<open>Math_min\<close> is \<open>Math.min\<close>
  on two numbers: a comparison with NaN is false, and the minimum with NaN is
  NaN.
\<close>

datatype number = Num real | PosInfinity | NegInfinity | NaN

fun num_le :: "number \<Rightarrow> number \<Rightarrow> bool" where
  "num_le NaN b = False"
| "num_le a NaN = False"
| "num_le NegInfinity b = True"
| "num_le a PosInfinity = True"
| "num_le (Num x) (Num y) = (x \<le> y)"
| "num_le a b = False"

fun num_eq :: "number \<Rightarrow> number \<Rightarrow> bool" where
  "num_eq NaN b = False"
| "num_eq a NaN = False"
| "num_eq a b = (a = b)"

fun Math_min :: "number \<Rightarrow> number \<Rightarrow> number" where
  "Math_min NaN b = NaN"
| "Math_min a NaN = NaN"
| "Math_min a b = (if num_le a b then a else b)"

text \<open>The operations of the runtime that round: the product \<open>a * b\<close> and
  \<open>Math.pow(a, b)\<close>. What they return is not fixed here.\<close>

record runtime =
  times :: "number \<Rightarrow> number \<Rightarrow> number"
  Math_pow :: "number \<Rightarrow> number \<Rightarrow> number"

record RetryOptions =
  maxAttempts :: number
  baseDelay :: number
  maxDelay :: number
  backoffMultiplier :: number

definition DEFAULT_RETRY_OPTIONS :: RetryOptions where
  "DEFAULT_RETRY_OPTIONS =
     \<lparr>maxAttempts = Num 3, baseDelay = Num 1000, maxDelay = Num 10000,
      backoffMultiplier = Num 2\<rparr>"

text \<open>\<open>Partial<RetryOptions>\<close>: a key that is absent is \<open>None\<close>. A key that is
  present with the value \<open>undefined\<close> is the same as one with the value NaN: the
  loop only compares the value and computes with it, and \<open>undefined\<close> is NaN
  there.\<close>

record PartialRetryOptions =
  opt_maxAttempts :: "number option"
  opt_baseDelay :: "number option"
  opt_maxDelay :: "number option"
  opt_backoffMultiplier :: "number option"

definition no_options :: PartialRetryOptions where
  "no_options = \<lparr>opt_maxAttempts = None, opt_baseDelay = None,
                  opt_maxDelay = None, opt_backoffMultiplier = None\<rparr>"

text \<open>The object spread \<open>{ ...DEFAULT_RETRY_OPTIONS, ...options }\<close>.\<close>

definition merge_options :: "RetryOptions \<Rightarrow> PartialRetryOptions \<Rightarrow> RetryOptions" where
  "merge_options d options =
     \<lparr>maxAttempts = (case opt_maxAttempts options of None \<Rightarrow> maxAttempts d | Some v \<Rightarrow> v),
      baseDelay = (case opt_baseDelay options of None \<Rightarrow> baseDelay d | Some v \<Rightarrow> v),
      maxDelay = (case opt_maxDelay options of None \<Rightarrow> maxDelay d | Some v \<Rightarrow> v),
      backoffMultiplier =
        (case opt_backoffMultiplier options of None \<Rightarrow> backoffMultiplier d | Some v \<Rightarrow> v)\<rparr>"

text \<open>
  The step \<open>attempt++\<close> of the loop counter. The counter starts at 1 and is a
  whole double: below \<open>2 ^ 53\<close> the sum \<open>attempt + 1\<close> is exact, and at
  \<open>2 ^ 53\<close> it rounds back to \<open>2 ^ 53\<close>, where the counter stays. The
  difference \<open>attempt - 1\<close> is exact for every value of the counter.
\<close>

definition increment :: "int \<Rightarrow> int" where
  "increment attempt = (if attempt < 2 ^ 53 then attempt + 1 else attempt)"

text \<open>
  The \<open>for\<close> loop of \<open>withRetry\<close>. The operation is a state transformer that
  returns a value or throws (its promise settles). In the \<open>catch\<close> block the
  error of the last attempt allowed is thrown again; otherwise the delay is
  computed, the warning is written, which reads \<open>lastError.message\<close> and so
  throws a \<open>TypeError\<close> out of \<open>withRetry\<close> when the operation rejected with
  \<open>undefined\<close> or \<open>null\<close>, and the loop waits: the wait
  \<open>await new Promise(resolve => setTimeout(resolve, delay))\<close> is the state
  transformer \<open>sleep delay\<close>, a parameter of the model. The last line of the
  source, \<open>throw lastError!\<close>, is the \<open>else\<close> branch. With an operation that
  fails for ever and a \<open>maxAttempts\<close> that the counter never passes nor
  equals (an infinite one, or one above \<open>2 ^ 53\<close>) the loop does not return.
\<close>

partial_function (option) retry_loop ::
  "runtime \<Rightarrow> (number \<Rightarrow> 's \<Rightarrow> 's) \<Rightarrow> ('s \<Rightarrow> (thrown + 'a) \<times> 's) \<Rightarrow> RetryOptions \<Rightarrow> int \<Rightarrow> thrown
     \<Rightarrow> 's \<Rightarrow> ((thrown + 'a) \<times> 's) option" where
  "retry_loop rt sleep operation config attempt lastError s =
     (if num_le (Num (of_int attempt)) (maxAttempts config) then
        (case operation s of
           (Inr v, s') \<Rightarrow> Some (Inr v, s')
         | (Inl error, s') \<Rightarrow>
             if num_eq (Num (of_int attempt)) (maxAttempts config) then Some (Inl error, s')
             else
               let delay = Math_min (times rt (baseDelay config)
                                       (Math_pow rt (backoffMultiplier config)
                                          (Num (of_int (attempt - 1)))))
                                    (maxDelay config)
               in (case read_message error of
                     Inl typeError \<Rightarrow> Some (Inl typeError, s')
                   | Inr msg \<Rightarrow>
                       retry_loop rt sleep operation config (increment attempt) error
                         (sleep delay s')))
      else Some (Inl lastError, s))"

definition withRetry ::
  "runtime \<Rightarrow> (number \<Rightarrow> 's \<Rightarrow> 's) \<Rightarrow> ('s \<Rightarrow> (thrown + 'a) \<times> 's) \<Rightarrow> PartialRetryOptions \<Rightarrow> 's
     \<Rightarrow> ((thrown + 'a) \<times> 's) option" where
  "withRetry rt sleep operation options s =
     retry_loop rt sleep operation (merge_options DEFAULT_RETRY_OPTIONS options) 1 Undefined s"

section \<open>The world outside the repository\<close>

text \<open>A parsed JSON value, as \<open>request.json()\<close> returns it. The association list
  of \<open>JObject\<close> holds the properties of the object.\<close>

datatype json =
    JNull
  | JBool bool
  | JNumber real
  | JString string
  | JArray "json list"
  | JObject "(string \<times> json) list"

text \<open>
  The behaviour of the external collaborators during one request. An SDK call
  that rejects does so with an error message (\<open>Some\<close>); the outcome of the
  \<open>k\<close>-th call of a gateway operation is a function of \<open>k\<close>, so that every
  pattern of failures can be written down.
  \<^item> \<open>request_json\<close>: the outcome of \<open>request.json()\<close>;
  \<^item> \<open>isDatetime\<close>: the test of \<open>z.string().datetime()\<close>;
  \<open>parseDate\<close>: the time value of \<open>new Date(s)\<close> for a string \<open>s\<close>;
  \<^item> \<open>uuidv4\<close>: the result of the one call of \<open>uuidv4()\<close>;
  \<open>clock\<close>: the time at the \<open>k\<close>-th reading of the clock;
  \<^item> \<open>env\<close>: \<open>process.env\<close>; \<open>arithmetic\<close>: the rounding operations of the
    runtime;
  \<^item> \<open>fromConnectionString\<close>, \<open>newServiceBusClient\<close>: whether the client
    constructors of the SDKs throw on a connection string;
  \<^item> \<open>createIfNotExists\<close>, \<open>upload\<close>, \<open>sendMessages\<close>, \<open>senderClose\<close>,
    \<open>clientClose\<close>: the outcomes of the SDK calls.
\<close>

record externals =
  request_json :: "thrown + json"
  isDatetime :: "string \<Rightarrow> bool"
  parseDate :: "string \<Rightarrow> date"
  uuidv4 :: string
  clock :: "nat \<Rightarrow> int"
  env :: "string \<rightharpoonup> string"
  arithmetic :: runtime
  fromConnectionString :: "string \<Rightarrow> string option"
  newServiceBusClient :: "string \<Rightarrow> string option"
  createIfNotExists :: "nat \<Rightarrow> string option"
  upload :: "nat \<Rightarrow> string option"
  sendMessages :: "nat \<Rightarrow> string option"
  senderClose :: "string option"
  clientClose :: "string option"

text \<open>A stored blob and a queued message. \<open>JSON.stringify(order, null, 2)\<close> is
  kept as the order it serialises.\<close>

record blob_metadata =
  meta_companyId :: string
  meta_employeeId :: string
  meta_status :: order_status

record blob =
  blob_data :: Order
  blobContentType :: string
  metadata :: blob_metadata

record message_body =
  body_orderId :: string
  body_companyId :: string
  body_employeeId :: string
  body_status :: order_status
  body_price :: real
  body_currency :: string

record ServiceBusMessage =
  msg_body :: message_body
  messageId :: string
  correlationId :: string
  contentType :: string

text \<open>
  What a request changes: the number of clock readings; the number of calls of
  each SDK operation and of \<open>MessagingService.close\<close>; the blobs of the
  container \<open>orders\<close>; the messages accepted by the queue; the delays waited
  for by \<open>withRetry\<close>.
\<close>

record world =
  clockReads :: nat
  createCalls :: nat
  uploadCalls :: nat
  sendCalls :: nat
  closeCalls :: nat
  senderCloseCalls :: nat
  clientCloseCalls :: nat
  blobs :: "string \<rightharpoonup> blob"
  queue :: "ServiceBusMessage list"
  sleeps :: "number list"

text \<open>\<open>Date.now()\<close> and \<open>new Date()\<close>: one reading of the clock.\<close>

definition now :: "externals \<Rightarrow> world \<Rightarrow> int \<times> world" where
  "now ext w = (clock ext (clockReads w), w\<lparr>clockReads := Suc (clockReads w)\<rparr>)"

text \<open>\<open>setTimeout\<close> as \<open>withRetry\<close> uses it.\<close>

definition setTimeout :: "number \<Rightarrow> world \<Rightarrow> world" where
  "setTimeout delay w = w\<lparr>sleeps := sleeps w @ [delay]\<rparr>"

section \<open>schema/order.schema.ts\<close>

text \<open>
  The schema library is modelled as far as \<open>CreateOrderSchema\<close> uses it. An
  issue has a path and a message. Parsing a value either aborts (a value of the
  wrong type) or yields the value, in both cases with the issues found; a
  refinement runs only on a parse that did not abort.
\<close>

datatype issue = Issue "string list" string

datatype 'a parsed = Aborted "issue list" | Value 'a "issue list"

fun issues_of :: "'a parsed \<Rightarrow> issue list" where
  "issues_of (Aborted is) = is"
| "issues_of (Value v is) = is"

fun value_of :: "'a parsed \<Rightarrow> 'a option" where
  "value_of (Aborted is) = None"
| "value_of (Value v is) = Some v"

fun parsedType :: "json option \<Rightarrow> string" where
  "parsedType None = ''undefined''"
| "parsedType (Some JNull) = ''null''"
| "parsedType (Some (JBool b)) = ''boolean''"
| "parsedType (Some (JNumber x)) = ''number''"
| "parsedType (Some (JString s)) = ''string''"
| "parsedType (Some (JArray xs)) = ''array''"
| "parsedType (Some (JObject kvs)) = ''object''"

text \<open>The message of an \<open>invalid_type\<close> issue.\<close>

definition invalid_type :: "string \<Rightarrow> json option \<Rightarrow> string" where
  "invalid_type expected received =
     (if received = None then ''Required''
      else ''Expected '' @ expected @ '', received '' @ parsedType received)"

text \<open>A check of a string or number schema: the test that must hold and the
  message of the issue raised when it does not.\<close>

type_synonym 'a check = "('a \<Rightarrow> bool) \<times> string"

definition run_checks :: "string list \<Rightarrow> 'a check list \<Rightarrow> 'a \<Rightarrow> issue list" where
  "run_checks path checks v =
     concat (map (\<lambda>(test, msg). if test v then [] else [Issue path msg]) checks)"

fun z_string :: "string list \<Rightarrow> string check list \<Rightarrow> json option \<Rightarrow> string parsed" where
  "z_string path checks (Some (JString s)) = Value s (run_checks path checks s)"
| "z_string path checks other = Aborted [Issue path (invalid_type ''string'' other)]"

fun z_number :: "string list \<Rightarrow> real check list \<Rightarrow> json option \<Rightarrow> real parsed" where
  "z_number path checks (Some (JNumber x)) = Value x (run_checks path checks x)"
| "z_number path checks other = Aborted [Issue path (invalid_type ''number'' other)]"

definition z_min :: "nat \<Rightarrow> string \<Rightarrow> string check" where
  "z_min n msg = (\<lambda>s. n \<le> length s, msg)"

definition z_length :: "nat \<Rightarrow> string \<Rightarrow> string check" where
  "z_length n msg = (\<lambda>s. length s = n, msg)"

definition z_datetime :: "externals \<Rightarrow> string \<Rightarrow> string check" where
  "z_datetime ext msg = (isDatetime ext, msg)"

definition z_positive :: "string \<Rightarrow> real check" where
  "z_positive msg = (\<lambda>x. 0 < x, msg)"

text \<open>The \<open>z.object({...})\<close> of the schema: every key of the shape is parsed, in
  the order of the shape; the object aborts when one of them does.\<close>

definition CreateOrderSchema_object :: "externals \<Rightarrow> json \<Rightarrow> CreateOrderRequest parsed" where
  "CreateOrderSchema_object ext input =
     (case input of
        JObject kvs \<Rightarrow>
          let data = map_of kvs;
              f1 = z_string [''employeeId''] [z_min 1 ''Employee ID is required'']
                     (data ''employeeId'');
              f2 = z_string [''bikeModel''] [z_min 1 ''Bike model is required'']
                     (data ''bikeModel'');
              f3 = z_string [''startDate''] [z_datetime ext ''Invalid start date format'']
                     (data ''startDate'');
              f4 = z_string [''endDate''] [z_datetime ext ''Invalid end date format'']
                     (data ''endDate'');
              f5 = z_number [''price''] [z_positive ''Price must be positive''] (data ''price'');
              f6 = z_string [''currency''] [z_length 3 ''Currency must be 3 characters'']
                     (data ''currency'');
              f7 = z_string [''companyId''] [z_min 1 ''Company ID is required'']
                     (data ''companyId'');
              found = issues_of f1 @ issues_of f2 @ issues_of f3 @ issues_of f4 @ issues_of f5
                        @ issues_of f6 @ issues_of f7
          in (case (value_of f1, value_of f2, value_of f3, value_of f4, value_of f5,
                    value_of f6, value_of f7) of
                (Some v1, Some v2, Some v3, Some v4, Some v5, Some v6, Some v7) \<Rightarrow>
                  Value \<lparr>req_employeeId = v1, req_bikeModel = v2, req_startDate = v3,
                         req_endDate = v4, req_price = v5, req_currency = v6,
                         req_companyId = v7\<rparr> found
              | _ \<Rightarrow> Aborted found)
      | other \<Rightarrow> Aborted [Issue [] (invalid_type ''object'' (Some other))])"

text \<open>The comparison \<open>end > start\<close> of two dates: false when one of them is
  invalid.\<close>

fun date_gt :: "date \<Rightarrow> date \<Rightarrow> bool" where
  "date_gt (Some a) (Some b) = (a > b)"
| "date_gt a b = False"

text \<open>\<open>CreateOrderSchema.safeParse\<close>: the object, then the refinement; the parse
  succeeds when no issue was raised.\<close>

definition CreateOrderSchema_safeParse ::
  "externals \<Rightarrow> json \<Rightarrow> issue list + CreateOrderRequest" where
  "CreateOrderSchema_safeParse ext input =
     (case CreateOrderSchema_object ext input of
        Aborted found \<Rightarrow> Inl found
      | Value data found \<Rightarrow>
          let start = parseDate ext (req_startDate data);
              end = parseDate ext (req_endDate data);
              found' = found @ (if date_gt end start then []
                                else [Issue [''endDate''] ''End date must be after start date''])
          in if found' = [] then Inr data else Inl found')"

section \<open>services/storageService.ts\<close>

text \<open>A service object is the connection string it was built from (and the
  queue name); the SDK clients it holds are in \<open>externals\<close>.\<close>

datatype StorageService = StorageService string

datatype MessagingService = MessagingService string string

text \<open>The constructor: \<open>BlobServiceClient.fromConnectionString\<close> may throw.\<close>

definition new_StorageService :: "externals \<Rightarrow> string \<Rightarrow> thrown + StorageService" where
  "new_StorageService ext connectionString =
     (case fromConnectionString ext connectionString of
        Some msg \<Rightarrow> Inl (NativeError msg)
      | None \<Rightarrow> Inr (StorageService connectionString))"

definition initializeContainer ::
  "externals \<Rightarrow> StorageService \<Rightarrow> world \<Rightarrow> (thrown + unit) \<times> world" where
  "initializeContainer ext this w =
     (let w' = w\<lparr>createCalls := Suc (createCalls w)\<rparr>
      in case createIfNotExists ext (createCalls w) of
           None \<Rightarrow> (Inr (), w')
         | Some msg \<Rightarrow>
             (Inl (new_OrderProcessingError ''Failed to initialize storage container''
                     ''STORAGE_INIT_ERROR''), w'))"

definition blobName :: "Order \<Rightarrow> string" where
  "blobName order = companyId order @ ''/'' @ id' order @ ''.json''"

text \<open>The blob that \<open>storeOrder\<close> uploads for an order.\<close>

definition order_blob :: "Order \<Rightarrow> blob" where
  "order_blob order =
     \<lparr>blob_data = order, blobContentType = ''application/json'',
      metadata = \<lparr>meta_companyId = companyId order, meta_employeeId = employeeId order,
                  meta_status = status order\<rparr>\<rparr>"

text \<open>An upload that succeeds stores the blob; one that rejects leaves the
  container as it was.\<close>

definition storeOrder ::
  "externals \<Rightarrow> StorageService \<Rightarrow> Order \<Rightarrow> world \<Rightarrow> (thrown + unit) \<times> world" where
  "storeOrder ext this order w =
     (let w' = w\<lparr>uploadCalls := Suc (uploadCalls w)\<rparr>
      in case upload ext (uploadCalls w) of
           None \<Rightarrow> (Inr (), w'\<lparr>blobs := (blobs w')(blobName order \<mapsto> order_blob order)\<rparr>)
         | Some msg \<Rightarrow>
             (Inl (new_OrderProcessingError ''Failed to store order in storage''
                     ''STORAGE_ERROR''), w'))"

section \<open>services/messagingService.ts\<close>

text \<open>The constructor with the default queue name: \<open>new ServiceBusClient\<close> may
  throw.\<close>

definition new_MessagingService :: "externals \<Rightarrow> string \<Rightarrow> thrown + MessagingService" where
  "new_MessagingService ext connectionString =
     (case newServiceBusClient ext connectionString of
        Some msg \<Rightarrow> Inl (NativeError msg)
      | None \<Rightarrow> Inr (MessagingService connectionString ''order-processing''))"

definition order_message :: "Order \<Rightarrow> ServiceBusMessage" where
  "order_message order =
     \<lparr>msg_body = \<lparr>body_orderId = id' order, body_companyId = companyId order,
                  body_employeeId = employeeId order, body_status = status order,
                  body_price = price order, body_currency = currency order\<rparr>,
      messageId = id' order,
      correlationId = companyId order @ ''-'' @ id' order,
      contentType = ''application/json''\<rparr>"

definition sendOrderMessage ::
  "externals \<Rightarrow> MessagingService \<Rightarrow> Order \<Rightarrow> world \<Rightarrow> (thrown + unit) \<times> world" where
  "sendOrderMessage ext this order w =
     (let w' = w\<lparr>sendCalls := Suc (sendCalls w)\<rparr>
      in case sendMessages ext (sendCalls w) of
           None \<Rightarrow> (Inr (), w'\<lparr>queue := queue w' @ [order_message order]\<rparr>)
         | Some msg \<Rightarrow>
             (Inl (new_OrderProcessingError ''Failed to send order message''
                     ''MESSAGING_ERROR''), w'))"

text \<open>\<open>close\<close>: the sender is closed, then the client; a rejection of the first
  call skips the second.\<close>

definition close :: "externals \<Rightarrow> MessagingService \<Rightarrow> world \<Rightarrow> (thrown + unit) \<times> world" where
  "close ext this w =
     (let w1 = w\<lparr>closeCalls := Suc (closeCalls w)\<rparr>;
          w2 = w1\<lparr>senderCloseCalls := Suc (senderCloseCalls w1)\<rparr>
      in case senderClose ext of
           Some msg \<Rightarrow> (Inl (NativeError msg), w2)
         | None \<Rightarrow>
             (let w3 = w2\<lparr>clientCloseCalls := Suc (clientCloseCalls w2)\<rparr>
              in case clientClose ext of
                   Some msg \<Rightarrow> (Inl (NativeError msg), w3)
                 | None \<Rightarrow> (Inr (), w3)))"

section \<open>functions/processOrder.ts\<close>

text \<open>The test \<open>!body\<close>: the values that JavaScript takes for false.\<close>

fun falsy :: "json \<Rightarrow> bool" where
  "falsy JNull = True"
| "falsy (JBool b) = (\<not> b)"
| "falsy (JNumber x) = (x = 0)"
| "falsy (JString s) = (s = [])"
| "falsy (JArray xs) = False"
| "falsy (JObject kvs) = False"

text \<open>\<open>parseRequestBody\<close>: the \<open>catch\<close> lets a \<open>ValidationError\<close> through and
  replaces every other error.\<close>

definition parseRequestBody :: "externals \<Rightarrow> thrown + json" where
  "parseRequestBody ext =
     (let attempt =
            (case request_json ext of
               Inl error \<Rightarrow> Inl error
             | Inr body \<Rightarrow>
                 if falsy body
                 then Inl (ValidationError ''Request body is required''
                             [''Request body cannot be empty''])
                 else Inr body)
      in case attempt of
           Inr body \<Rightarrow> Inr body
         | Inl (ValidationError msg es) \<Rightarrow> Inl (ValidationError msg es)
         | Inl error \<Rightarrow>
             Inl (ValidationError ''Invalid JSON in request body''
                    [''Request body must be valid JSON'']))"

text \<open>\<open>err.path.join('.')\<close>.\<close>

fun join_dot :: "string list \<Rightarrow> string" where
  "join_dot [] = []"
| "join_dot [x] = x"
| "join_dot (x # xs) = x @ ''.'' @ join_dot xs"

fun issue_text :: "issue \<Rightarrow> string" where
  "issue_text (Issue path msg) = join_dot path @ '': '' @ msg"

definition validateInput :: "externals \<Rightarrow> json \<Rightarrow> thrown + CreateOrderRequest" where
  "validateInput ext input =
     (case CreateOrderSchema_safeParse ext input of
        Inl found \<Rightarrow> Inl (ValidationError ''Validation failed'' (map issue_text found))
      | Inr data \<Rightarrow> Inr data)"

text \<open>\<open>createOrder\<close>: \<open>createdAt\<close> and \<open>updatedAt\<close> are two calls of
  \<open>new Date()\<close>.\<close>

definition createOrder :: "externals \<Rightarrow> CreateOrderRequest \<Rightarrow> world \<Rightarrow> Order \<times> world" where
  "createOrder ext input w =
     (let (t1, w1) = now ext w;
          (t2, w2) = now ext w1
      in (\<lparr>id' = uuidv4 ext,
           employeeId = req_employeeId input,
           bikeModel = req_bikeModel input,
           startDate = parseDate ext (req_startDate input),
           endDate = parseDate ext (req_endDate input),
           status = PENDING,
           price = req_price input,
           currency = req_currency input,
           companyId = req_companyId input,
           createdAt = Some t1,
           updatedAt = Some t2\<rparr>, w2))"

text \<open>\<open>process.env.NAME || ''\<close>.\<close>

definition env_or_empty :: "externals \<Rightarrow> string \<Rightarrow> string" where
  "env_or_empty ext name = (case env ext name of None \<Rightarrow> [] | Some v \<Rightarrow> v)"

text \<open>The options that \<open>processOrder\<close> passes: \<open>{ maxAttempts: n }\<close>.\<close>

definition attempts :: "real \<Rightarrow> PartialRetryOptions" where
  "attempts n = no_options\<lparr>opt_maxAttempts := Some (Num n)\<rparr>"

text \<open>The body of the inner \<open>try\<close>: the three gateway stages and the response
  of a success. A stage that does not return leaves the request without a
  result.\<close>

definition gateway_stages ::
  "externals \<Rightarrow> StorageService \<Rightarrow> MessagingService \<Rightarrow> Order \<Rightarrow> world
     \<Rightarrow> ((thrown + HttpResponseInit) \<times> world) option" where
  "gateway_stages ext storageService messagingService order w =
     (case withRetry (arithmetic ext) setTimeout (initializeContainer ext storageService)
             (attempts 2) w of
        None \<Rightarrow> None
      | Some (Inl error, w1) \<Rightarrow> Some (Inl error, w1)
      | Some (Inr u1, w1) \<Rightarrow>
          (case withRetry (arithmetic ext) setTimeout (storeOrder ext storageService order)
                  (attempts 3) w1 of
             None \<Rightarrow> None
           | Some (Inl error, w2) \<Rightarrow> Some (Inl error, w2)
           | Some (Inr u2, w2) \<Rightarrow>
               (case withRetry (arithmetic ext) setTimeout
                       (sendOrderMessage ext messagingService order) (attempts 3) w2 of
                  None \<Rightarrow> None
                | Some (Inl error, w3) \<Rightarrow> Some (Inl error, w3)
                | Some (Inr u3, w3) \<Rightarrow>
                    (let (finished, w4) = now ext w3
                     in Some (Inr \<lparr>res_status = 201,
                                   res_jsonBody =
                                     \<lparr>success = True, orderId = Some (id' order),
                                      message = ''Order processed successfully'',
                                      errors = None, code = None\<rparr>\<rparr>, w4)))))"

text \<open>\<open>try { ... } finally { await messagingService.close() }\<close>: the release
  runs after the stages whatever their outcome, and an error it throws
  replaces that outcome.\<close>

definition stages_then_close ::
  "externals \<Rightarrow> StorageService \<Rightarrow> MessagingService \<Rightarrow> Order \<Rightarrow> world
     \<Rightarrow> ((thrown + HttpResponseInit) \<times> world) option" where
  "stages_then_close ext storageService messagingService order w =
     (case gateway_stages ext storageService messagingService order w of
        None \<Rightarrow> None
      | Some (outcome, w1) \<Rightarrow>
          (let (released, w2) = close ext messagingService w1
           in case released of
                Inl error \<Rightarrow> Some (Inl error, w2)
              | Inr u \<Rightarrow> Some (outcome, w2)))"

text \<open>The body of the outer \<open>try\<close>.\<close>

definition pipeline ::
  "externals \<Rightarrow> world \<Rightarrow> ((thrown + HttpResponseInit) \<times> world) option" where
  "pipeline ext w =
     (case parseRequestBody ext of
        Inl error \<Rightarrow> Some (Inl error, w)
      | Inr requestBody \<Rightarrow>
          (case validateInput ext requestBody of
             Inl error \<Rightarrow> Some (Inl error, w)
           | Inr validatedInput \<Rightarrow>
               (let (order, w1) = createOrder ext validatedInput w
                in case new_StorageService ext (env_or_empty ext ''AzureWebJobsStorage'') of
                     Inl error \<Rightarrow> Some (Inl error, w1)
                   | Inr storageService \<Rightarrow>
                       (case new_MessagingService ext
                               (env_or_empty ext ''ServiceBusConnectionString'') of
                          Inl error \<Rightarrow> Some (Inl error, w1)
                        | Inr messagingService \<Rightarrow>
                            stages_then_close ext storageService messagingService order w1))))"

text \<open>\<open>processOrder\<close>: the start time is read, the pipeline runs, and the
  \<open>catch\<close> turns whatever was thrown into a response.\<close>

definition processOrder :: "externals \<Rightarrow> world \<Rightarrow> (HttpResponseInit \<times> world) option" where
  "processOrder ext w =
     (let (startTime, w1) = now ext w
      in case pipeline ext w1 of
           None \<Rightarrow> None
         | Some (Inr response, w2) \<Rightarrow> Some (response, w2)
         | Some (Inl error, w2) \<Rightarrow>
             (let (failedAt, w3) = now ext w2
              in Some (handleError error, w3)))"

section \<open>Observing a run\<close>

text \<open>
  To count the calls that \<open>withRetry\<close> makes and to see the waits between
  them, an operation is run on a state that carries a trace: \<open>traced\<close> appends
  \<open>Called\<close> at every call of the operation and \<open>traced_sleep\<close> appends
  \<open>Slept delay\<close> at every wait. \<open>state_after operation k s\<close> is the state that
  \<open>k\<close> successive calls of the operation leave.
\<close>

datatype event = Called | Slept number

definition traced ::
  "('s \<Rightarrow> (thrown + 'a) \<times> 's) \<Rightarrow> event list \<times> 's \<Rightarrow> (thrown + 'a) \<times> event list \<times> 's" where
  "traced operation = (\<lambda>(tr, s). case operation s of (r, s') \<Rightarrow> (r, tr @ [Called], s'))"

definition traced_sleep :: "number \<Rightarrow> event list \<times> 's \<Rightarrow> event list \<times> 's" where
  "traced_sleep delay = (\<lambda>(tr, s). (tr @ [Slept delay], s))"

fun state_after :: "('s \<Rightarrow> (thrown + 'a) \<times> 's) \<Rightarrow> nat \<Rightarrow> 's \<Rightarrow> 's" where
  "state_after operation 0 s = s"
| "state_after operation (Suc k) s = snd (operation (state_after operation k s))"

text \<open>The value of the loop counter \<open>attempt\<close> at the \<open>k\<close>-th call of the
  operation: \<open>k\<close> itself up to \<open>2 ^ 53\<close>.\<close>

definition attempt_number :: "nat \<Rightarrow> nat" where
  "attempt_number k = min k (2 ^ 53)"

text \<open>The delay after the \<open>k\<close>-th call when it has failed, and the state in
  which call \<open>k + 1\<close> starts when the calls before it have failed.\<close>

definition backoff :: "runtime \<Rightarrow> RetryOptions \<Rightarrow> nat \<Rightarrow> number" where
  "backoff rt config k =
     Math_min (times rt (baseDelay config)
                 (Math_pow rt (backoffMultiplier config)
                    (Num (real (attempt_number k - 1)))))
              (maxDelay config)"

fun retry_state ::
  "runtime \<Rightarrow> (number \<Rightarrow> 's \<Rightarrow> 's) \<Rightarrow> ('s \<Rightarrow> (thrown + 'a) \<times> 's) \<Rightarrow> RetryOptions \<Rightarrow> nat
     \<Rightarrow> 's \<Rightarrow> 's" where
  "retry_state rt sleep operation config 0 s = s"
| "retry_state rt sleep operation config (Suc k) s =
     sleep (backoff rt config (Suc k))
       (snd (operation (retry_state rt sleep operation config k s)))"

text \<open>The calls \<open>a\<close>, ..., \<open>a + j - 1\<close> of the operation, each of them followed
  by its wait.\<close>

definition waits :: "runtime \<Rightarrow> RetryOptions \<Rightarrow> nat \<Rightarrow> nat \<Rightarrow> event list" where
  "waits rt config a j =
     concat (map (\<lambda>k. [Called, Slept (backoff rt config k)]) [a..<a + j])"

text \<open>The policy that \<open>processOrder\<close> passes with \<open>{ maxAttempts: n }\<close>.\<close>

definition policy :: "real \<Rightarrow> RetryOptions" where
  "policy n = merge_options DEFAULT_RETRY_OPTIONS (attempts n)"

text \<open>Whether a request gets as far as holding both service objects: the body
  parses, the input validates and both constructors return.\<close>

definition services_constructed :: "externals \<Rightarrow> bool" where
  "services_constructed ext =
     (case parseRequestBody ext of
        Inl error \<Rightarrow> False
      | Inr requestBody \<Rightarrow>
          (case validateInput ext requestBody of
             Inl error \<Rightarrow> False
           | Inr validatedInput \<Rightarrow>
               fromConnectionString ext (env_or_empty ext ''AzureWebJobsStorage'') = None
               \<and> newServiceBusClient ext (env_or_empty ext ''ServiceBusConnectionString'')
                   = None))"

subsection \<open>A concrete request\<close>

text \<open>
  Scenario A of the specification: a valid payload, both connection strings
  set, every gateway call succeeding. The client constructors reject the empty
  connection string; the clock advances by one millisecond at every reading.
  The arithmetic is exact on finite numbers, as that of doubles is wherever
  the exact result is a double: so it is for the whole numbers of the
  policies used here.
\<close>

definition whole_number_arithmetic :: runtime where
  "whole_number_arithmetic =
     \<lparr>times = (\<lambda>a b. case (a, b) of (Num x, Num y) \<Rightarrow> Num (x * y) | _ \<Rightarrow> NaN),
      Math_pow = (\<lambda>a b. case (a, b) of
                    (Num x, Num y) \<Rightarrow>
                      if 0 \<le> y \<and> y = of_int \<lfloor>y\<rfloor> then Num (x ^ nat \<lfloor>y\<rfloor>) else NaN
                  | _ \<Rightarrow> NaN)\<rparr>"

definition payload_A :: json where
  "payload_A = JObject
     [(''employeeId'', JString ''e1''), (''bikeModel'', JString ''M''),
      (''startDate'', JString ''2024-01-01T00:00:00Z''),
      (''endDate'', JString ''2024-01-02T00:00:00Z''),
      (''price'', JNumber 10), (''currency'', JString ''USD''),
      (''companyId'', JString ''c1'')]"

definition payload_B :: json where
  "payload_B = JObject
     [(''employeeId'', JString ''e1''), (''bikeModel'', JString ''M''),
      (''startDate'', JString ''2024-01-02T00:00:00Z''),
      (''endDate'', JString ''2024-01-01T00:00:00Z''),
      (''price'', JNumber 10), (''currency'', JString ''USD''),
      (''companyId'', JString ''c1'')]"

definition healthy :: externals where
  "healthy =
     \<lparr>request_json = Inr payload_A,
      isDatetime = (\<lambda>s. s = ''2024-01-01T00:00:00Z'' \<or> s = ''2024-01-02T00:00:00Z''),
      parseDate = map_of [(''2024-01-01T00:00:00Z'', 1704067200000),
                          (''2024-01-02T00:00:00Z'', 1704153600000)],
      uuidv4 = ''3f2b8c1e-5d4a-4f6b-9c7d-0a1b2c3d4e5f'',
      clock = (\<lambda>k. 1700000000000 + int k),
      env = [''AzureWebJobsStorage'' \<mapsto> ''UseDevelopmentStorage=true'',
             ''ServiceBusConnectionString'' \<mapsto> ''Endpoint=sb://test.servicebus.windows.net/''],
      arithmetic = whole_number_arithmetic,
      fromConnectionString = (\<lambda>cs. if cs = [] then Some ''Invalid connection string'' else None),
      newServiceBusClient = (\<lambda>cs. if cs = [] then Some ''Invalid connection string'' else None),
      createIfNotExists = (\<lambda>k. None),
      upload = (\<lambda>k. None),
      sendMessages = (\<lambda>k. None),
      senderClose = None,
      clientClose = None\<rparr>"

definition world0 :: world where
  "world0 =
     \<lparr>clockReads = 0, createCalls = 0, uploadCalls = 0, sendCalls = 0, closeCalls = 0,
      senderCloseCalls = 0, clientCloseCalls = 0, blobs = Map.empty, queue = [], sleeps = []\<rparr>"

text \<open>The order that \<open>createOrder\<close> builds in Scenario A.\<close>

definition order_A :: Order where
  "order_A =
     \<lparr>id' = ''3f2b8c1e-5d4a-4f6b-9c7d-0a1b2c3d4e5f'', employeeId = ''e1'', bikeModel = ''M'',
      startDate = Some 1704067200000, endDate = Some 1704153600000, status = PENDING,
      price = 10, currency = ''USD'', companyId = ''c1'',
      createdAt = Some 1700000000001, updatedAt = Some 1700000000002\<rparr>"

subsection \<open>Variations of the request\<close>

text \<open>The input that validation returns for the payload of Scenario A.\<close>

definition input_A :: CreateOrderRequest where
  "input_A = \<lparr>req_employeeId = ''e1'', req_bikeModel = ''M'',
               req_startDate = ''2024-01-01T00:00:00Z'', req_endDate = ''2024-01-02T00:00:00Z'',
               req_price = 10, req_currency = ''USD'', req_companyId = ''c1''\<rparr>"

text \<open>A body that is not JSON; Scenario B, the two dates exchanged.\<close>

definition malformed :: externals where
  "malformed = healthy\<lparr>request_json := Inl (NativeError ''Unexpected token'')\<rparr>"

definition dates_reversed :: externals where
  "dates_reversed = healthy\<lparr>request_json := Inr payload_B\<rparr>"

text \<open>Every upload rejects (Scenario D); every send rejects; and the same two
  with a sender whose \<open>close\<close> rejects as well.\<close>

definition storage_down :: externals where
  "storage_down = healthy\<lparr>upload := (\<lambda>k. Some ''The operation timed out'')\<rparr>"

definition bus_down :: externals where
  "bus_down = healthy\<lparr>sendMessages := (\<lambda>k. Some ''Service Bus unavailable'')\<rparr>"

definition storage_down_close_fails :: externals where
  "storage_down_close_fails = storage_down\<lparr>senderClose := Some ''Close failed''\<rparr>"

definition bus_down_close_fails :: externals where
  "bus_down_close_fails = bus_down\<lparr>senderClose := Some ''Close failed''\<rparr>"

text \<open>The variable \<open>AzureWebJobsStorage\<close> is not set.\<close>

definition storage_unconfigured :: externals where
  "storage_unconfigured =
     healthy\<lparr>env := [''ServiceBusConnectionString'' \<mapsto>
                        ''Endpoint=sb://test.servicebus.windows.net/'']\<rparr>"

text \<open>The variable \<open>SKIP_SERVICE_BUS\<close> is set to \<open>true\<close>, as the integration test
  and the documentation of the repository set it, and every send rejects.\<close>

definition skip_flag_set :: externals where
  "skip_flag_set = bus_down\<lparr>env := (env bus_down)(''SKIP_SERVICE_BUS'' \<mapsto> ''true'')\<rparr>"

text \<open>A valid payload whose \<open>employeeId\<close> is the string that \<open>uuidv4\<close> returns.\<close>

definition payload_C :: json where
  "payload_C = JObject
     [(''employeeId'', JString ''3f2b8c1e-5d4a-4f6b-9c7d-0a1b2c3d4e5f''),
      (''bikeModel'', JString ''M''),
      (''startDate'', JString ''2024-01-01T00:00:00Z''),
      (''endDate'', JString ''2024-01-02T00:00:00Z''),
      (''price'', JNumber 10), (''currency'', JString ''USD''),
      (''companyId'', JString ''c1'')]"

definition input_C :: CreateOrderRequest where
  "input_C = input_A\<lparr>req_employeeId := ''3f2b8c1e-5d4a-4f6b-9c7d-0a1b2c3d4e5f''\<rparr>"

definition same_id :: externals where
  "same_id = healthy\<lparr>request_json := Inr payload_C\<rparr>"

text \<open>An operation that fails at every call; the error of the call made in
  state \<open>k\<close> carries \<open>k\<close>, so that the errors of different calls differ. An
  operation that rejects with \<open>undefined\<close> at every call. A policy that differs
  from the defaults in every field.\<close>

definition always_failing :: "nat \<Rightarrow> (thrown + unit) \<times> nat" where
  "always_failing k = (Inl (OrderProcessingError ''down'' ''E'' (int k)), Suc k)"

definition rejects_undefined :: "nat \<Rightarrow> (thrown + unit) \<times> nat" where
  "rejects_undefined k = (Inl Undefined, Suc k)"


section \<open>Lemmas\<close>

subsection \<open>The loop counter\<close>

lemma increment_numeral: "increment 1 = 2" "increment 2 = 3" "increment 3 = 4"
  by (simp_all add: increment_def)

lemma attempt_number_numeral:
  "attempt_number 0 = 0" "attempt_number (Suc 0) = Suc 0" "attempt_number 1 = 1"
  "attempt_number 2 = 2" "attempt_number 3 = 3" "attempt_number 4 = 4"
  by (simp_all add: attempt_number_def)

lemma attempt_number_exact: "k \<le> 2 ^ 53 \<Longrightarrow> attempt_number k = k"
  by (simp add: attempt_number_def)

lemma attempt_number_pos: "1 \<le> k \<Longrightarrow> 1 \<le> attempt_number k"
  by (simp add: attempt_number_def)

lemma increment_attempt_number:
  "increment (int (attempt_number k)) = int (attempt_number (Suc k))"
proof (cases "k < 2 ^ 53")
  case True
  then have "int k < 2 ^ 53"
    by (metis of_nat_less_iff of_nat_numeral of_nat_power)
  with True show ?thesis by (simp add: increment_def attempt_number_def)
next
  case False
  then show ?thesis by (simp add: increment_def attempt_number_def)
qed

subsection \<open>The retry loop\<close>

lemmas retry_unfold =
  retry_loop.simps [of _ _ _ _ 1] retry_loop.simps [of _ _ _ _ 2] retry_loop.simps [of _ _ _ _ 3]
  retry_loop.simps [of _ _ _ _ 4] increment_numeral

lemmas retry_config =
  withRetry_def merge_options_def DEFAULT_RETRY_OPTIONS_def attempts_def no_options_def

text \<open>A run in which the calls \<open>a + 1\<close>, ..., \<open>j\<close> fail with a value that has a
  message, at counters other than \<open>maxAttempts\<close>, ends with call \<open>j + 1\<close> when
  that call returns or is made at the counter \<open>maxAttempts\<close>.\<close>

lemma retry_loop_last_call:
  assumes "a \<le> j"
    and "\<forall>k. a \<le> k \<and> k \<le> j \<longrightarrow>
           num_le (Num (real (attempt_number (Suc k)))) (maxAttempts config)"
    and "\<forall>k. a \<le> k \<and> k < j \<longrightarrow>
           \<not> num_eq (Num (real (attempt_number (Suc k)))) (maxAttempts config)
           \<and> (\<exists>e msg. fst (operation (retry_state rt sleep operation config k s)) = Inl e
                  \<and> read_message e = Inr msg)"
    and "num_eq (Num (real (attempt_number (Suc j)))) (maxAttempts config)
         \<or> \<not> isl (fst (operation (retry_state rt sleep operation config j s)))"
  shows "retry_loop rt sleep operation config (int (attempt_number (Suc a))) lastError
           (retry_state rt sleep operation config a s)
         = Some (operation (retry_state rt sleep operation config j s))"
  using assms
proof (induction "j - a" arbitrary: a lastError)
  case 0
  then have aj: "a = j" by simp
  have le: "num_le (Num (real (attempt_number (Suc j)))) (maxAttempts config)"
    using "0.prems"(2) aj by simp
  show ?case
  proof (cases "operation (retry_state rt sleep operation config j s)")
    case (Pair r s')
    show ?thesis
    proof (cases r)
      case (Inl e)
      with Pair "0.prems"(4)
      have "num_eq (Num (real (attempt_number (Suc j)))) (maxAttempts config)"
        by simp
      with Pair Inl aj le show ?thesis
        by (subst retry_loop.simps) simp
    next
      case (Inr v)
      with Pair aj le show ?thesis
        by (subst retry_loop.simps) simp
    qed
  qed
next
  case (Suc d)
  then have lt: "a < j" by simp
  with Suc.prems(3) obtain e msg where
    op: "fst (operation (retry_state rt sleep operation config a s)) = Inl e"
    and msg: "read_message e = Inr msg"
    and ne: "\<not> num_eq (Num (real (attempt_number (Suc a)))) (maxAttempts config)"
    by auto
  obtain s' where op': "operation (retry_state rt sleep operation config a s) = (Inl e, s')"
    using op by (cases "operation (retry_state rt sleep operation config a s)") auto
  have le: "num_le (Num (real (attempt_number (Suc a)))) (maxAttempts config)"
    using Suc.prems(1,2) by auto
  have d: "real (attempt_number (Suc a)) - 1 = real (attempt_number (Suc a) - Suc 0)"
    using attempt_number_pos [of "Suc a"] by simp
  have next_state:
    "sleep (Math_min (times rt (baseDelay config)
                        (Math_pow rt (backoffMultiplier config)
                           (Num (real (attempt_number (Suc a) - Suc 0)))))
                     (maxDelay config)) s'
       = retry_state rt sleep operation config (Suc a) s"
    using op' by (simp add: backoff_def)
  have ih: "retry_loop rt sleep operation config (int (attempt_number (Suc (Suc a)))) e
              (retry_state rt sleep operation config (Suc a) s)
            = Some (operation (retry_state rt sleep operation config j s))"
    using Suc.hyps(2) Suc.prems lt by (intro Suc.hyps(1)) auto
  show ?case
    using op' ne le msg next_state ih
    by (subst retry_loop.simps) (simp add: d increment_attempt_number)
qed

lemma traced_apply:
  "traced operation (tr, s) = (fst (operation s), tr @ [Called], snd (operation s))"
  by (simp add: traced_def split: prod.splits)

lemma traced_sleep_apply: "traced_sleep delay (tr, s) = (tr @ [Slept delay], s)"
  by (simp add: traced_sleep_def)

lemma retry_state_traced:
  "retry_state rt traced_sleep (traced operation) config k (tr, s) =
     (tr @ waits rt config 1 k, state_after operation k s)"
proof (induction k)
  case 0
  show ?case by (simp add: waits_def)
next
  case (Suc k)
  have "[1..<1 + Suc k] = [1..<1 + k] @ [Suc k]" by simp
  then show ?case
    by (simp add: Suc traced_apply traced_sleep_apply waits_def del: upt_Suc)
qed

lemma count_called_waits:
  "length (filter (\<lambda>e. e = Called) (waits rt config a j)) = j"
proof -
  have "length (filter (\<lambda>e. e = Called) (concat (map (\<lambda>i. [Called, Slept (f i)]) xs)))
          = length xs" for f :: "nat \<Rightarrow> number" and xs
    by (induction xs) simp_all
  then show ?thesis by (simp add: waits_def)
qed

lemma maxAttempts_merge:
  "maxAttempts (merge_options d (options\<lparr>opt_maxAttempts := Some n\<rparr>)) = n"
  by (simp add: merge_options_def)

lemma read_message_Inr:
  "e \<noteq> Undefined \<Longrightarrow> e \<noteq> Null \<Longrightarrow> \<exists>msg. read_message e = Inr msg"
  by (cases e) simp_all





lemma always_failing_state: "state_after always_failing k s = s + k"
  by (induction k) (simp_all add: always_failing_def)



subsection \<open>The retried gateway calls in closed form\<close>

lemmas schema_defs =
  validateInput_def CreateOrderSchema_safeParse_def CreateOrderSchema_object_def
  run_checks_def z_min_def z_length_def z_datetime_def z_positive_def invalid_type_def

lemmas gateway_defs =
  initializeContainer_def storeOrder_def sendOrderMessage_def close_def setTimeout_def
  new_OrderProcessingError_def new_StorageService_def new_MessagingService_def

lemmas pipeline_defs =
  processOrder_def pipeline_def stages_then_close_def gateway_stages_def createOrder_def
  now_def env_or_empty_def parseRequestBody_def

lemmas scenario_defs =
  healthy_def payload_A_def payload_B_def world0_def order_A_def blobName_def
  whole_number_arithmetic_def

lemmas variant_defs =
  malformed_def dates_reversed_def storage_down_def bus_down_def storage_down_close_fails_def
  bus_down_close_fails_def storage_unconfigured_def skip_flag_set_def same_id_def input_A_def
  payload_C_def input_C_def

lemma all_less_2: "(\<forall>k<2::nat. P k) = (P 0 \<and> P 1)"
  by (auto simp: less_2_cases_iff)

lemma all_less_3: "(\<forall>k<3::nat. P k) = (P 0 \<and> P 1 \<and> P 2)"
proof -
  have "k < 3 \<longleftrightarrow> k = 0 \<or> k = 1 \<or> k = 2" for k :: nat by arith
  then show ?thesis by auto
qed

lemma ex_less_2: "(\<exists>k<2::nat. P k) = (P 0 \<or> P 1)"
  by (auto simp: less_2_cases_iff)

lemma ex_less_3: "(\<exists>k<3::nat. P k) = (P 0 \<or> P 1 \<or> P 2)"
proof -
  have "k < 3 \<longleftrightarrow> k = 0 \<or> k = 1 \<or> k = 2" for k :: nat by arith
  then show ?thesis by auto
qed

lemma withRetry_initializeContainer:
  "withRetry (arithmetic ext) setTimeout (initializeContainer ext st) (attempts 2) w =
     Some (case createIfNotExists ext (createCalls w) of
        None \<Rightarrow> (Inr (), w\<lparr>createCalls := Suc (createCalls w)\<rparr>)
      | Some m \<Rightarrow>
          (case createIfNotExists ext (Suc (createCalls w)) of
             None \<Rightarrow> (Inr (), w\<lparr>createCalls := Suc (Suc (createCalls w)),
                               sleeps := sleeps w @ [backoff (arithmetic ext) (policy 2) 1]\<rparr>)
           | Some m' \<Rightarrow>
               (Inl (OrderProcessingError ''Failed to initialize storage container''
                       ''STORAGE_INIT_ERROR'' 500),
                w\<lparr>createCalls := Suc (Suc (createCalls w)),
                  sleeps := sleeps w @ [backoff (arithmetic ext) (policy 2) 1]\<rparr>)))"
  by (simp add: retry_config retry_unfold initializeContainer_def setTimeout_def
        new_OrderProcessingError_def backoff_def attempt_number_numeral policy_def split: option.splits)

lemma withRetry_storeOrder:
  "withRetry (arithmetic ext) setTimeout (storeOrder ext st order) (attempts 3) w =
     Some (case upload ext (uploadCalls w) of
        None \<Rightarrow> (Inr (), w\<lparr>uploadCalls := Suc (uploadCalls w),
                          blobs := (blobs w)(blobName order \<mapsto> order_blob order)\<rparr>)
      | Some m \<Rightarrow>
          (case upload ext (Suc (uploadCalls w)) of
             None \<Rightarrow> (Inr (), w\<lparr>uploadCalls := Suc (Suc (uploadCalls w)),
                               sleeps := sleeps w @ [backoff (arithmetic ext) (policy 3) 1],
                               blobs := (blobs w)(blobName order \<mapsto> order_blob order)\<rparr>)
           | Some m' \<Rightarrow>
               (case upload ext (Suc (Suc (uploadCalls w))) of
                  None \<Rightarrow> (Inr (), w\<lparr>uploadCalls := Suc (Suc (Suc (uploadCalls w))),
                                    sleeps := sleeps w @ [backoff (arithmetic ext) (policy 3) 1,
                                                         backoff (arithmetic ext) (policy 3) 2],
                                    blobs := (blobs w)(blobName order \<mapsto> order_blob order)\<rparr>)
                | Some m'' \<Rightarrow>
                    (Inl (OrderProcessingError ''Failed to store order in storage''
                            ''STORAGE_ERROR'' 500),
                     w\<lparr>uploadCalls := Suc (Suc (Suc (uploadCalls w))),
                       sleeps := sleeps w @ [backoff (arithmetic ext) (policy 3) 1,
                                            backoff (arithmetic ext) (policy 3) 2]\<rparr>))))"
  by (simp add: retry_config retry_unfold storeOrder_def setTimeout_def
        new_OrderProcessingError_def backoff_def attempt_number_numeral policy_def split: option.splits)

lemma withRetry_sendOrderMessage:
  "withRetry (arithmetic ext) setTimeout (sendOrderMessage ext ms order) (attempts 3) w =
     Some (case sendMessages ext (sendCalls w) of
        None \<Rightarrow> (Inr (), w\<lparr>sendCalls := Suc (sendCalls w),
                          queue := queue w @ [order_message order]\<rparr>)
      | Some m \<Rightarrow>
          (case sendMessages ext (Suc (sendCalls w)) of
             None \<Rightarrow> (Inr (), w\<lparr>sendCalls := Suc (Suc (sendCalls w)),
                               sleeps := sleeps w @ [backoff (arithmetic ext) (policy 3) 1],
                               queue := queue w @ [order_message order]\<rparr>)
           | Some m' \<Rightarrow>
               (case sendMessages ext (Suc (Suc (sendCalls w))) of
                  None \<Rightarrow> (Inr (), w\<lparr>sendCalls := Suc (Suc (Suc (sendCalls w))),
                                    sleeps := sleeps w @ [backoff (arithmetic ext) (policy 3) 1,
                                                         backoff (arithmetic ext) (policy 3) 2],
                                    queue := queue w @ [order_message order]\<rparr>)
                | Some m'' \<Rightarrow>
                    (Inl (OrderProcessingError ''Failed to send order message''
                            ''MESSAGING_ERROR'' 500),
                     w\<lparr>sendCalls := Suc (Suc (Suc (sendCalls w))),
                       sleeps := sleeps w @ [backoff (arithmetic ext) (policy 3) 1,
                                            backoff (arithmetic ext) (policy 3) 2]\<rparr>))))"
  by (simp add: retry_config retry_unfold sendOrderMessage_def setTimeout_def
        new_OrderProcessingError_def backoff_def attempt_number_numeral policy_def split: option.splits)

lemmas retried_calls =
  withRetry_initializeContainer withRetry_storeOrder withRetry_sendOrderMessage

lemma gateway_stages_returns:
  "\<exists>outcome w'. gateway_stages ext st ms order w = Some (outcome, w')
      \<and> closeCalls w' = closeCalls w"
  by (simp add: gateway_stages_def retried_calls now_def split: option.splits)

subsection \<open>A request that holds both service objects\<close>

lemma close_result:
  "close ext ms w =
     (case senderClose ext of
        Some msg \<Rightarrow> (Inl (NativeError msg),
                     w\<lparr>closeCalls := Suc (closeCalls w),
                       senderCloseCalls := Suc (senderCloseCalls w)\<rparr>)
      | None \<Rightarrow>
          (case clientClose ext of
             Some msg \<Rightarrow> (Inl (NativeError msg),
                          w\<lparr>closeCalls := Suc (closeCalls w),
                            senderCloseCalls := Suc (senderCloseCalls w),
                            clientCloseCalls := Suc (clientCloseCalls w)\<rparr>)
           | None \<Rightarrow> (Inr (),
                      w\<lparr>closeCalls := Suc (closeCalls w),
                        senderCloseCalls := Suc (senderCloseCalls w),
                        clientCloseCalls := Suc (clientCloseCalls w)\<rparr>)))"
  by (simp add: close_def Let_def split: option.splits)

lemma stages_then_close_result:
  assumes "gateway_stages ext st ms order w = Some (outcome, w')"
  shows "stages_then_close ext st ms order w =
     Some (case senderClose ext of
        Some msg \<Rightarrow> (Inl (NativeError msg),
                     w'\<lparr>closeCalls := Suc (closeCalls w'),
                       senderCloseCalls := Suc (senderCloseCalls w')\<rparr>)
      | None \<Rightarrow>
          (case clientClose ext of
             Some msg \<Rightarrow> (Inl (NativeError msg),
                          w'\<lparr>closeCalls := Suc (closeCalls w'),
                            senderCloseCalls := Suc (senderCloseCalls w'),
                            clientCloseCalls := Suc (clientCloseCalls w')\<rparr>)
           | None \<Rightarrow> (outcome,
                      w'\<lparr>closeCalls := Suc (closeCalls w'),
                        senderCloseCalls := Suc (senderCloseCalls w'),
                        clientCloseCalls := Suc (clientCloseCalls w')\<rparr>)))"
  using assms by (simp add: stages_then_close_def close_result split: option.splits)

lemma processOrder_with_services:
  assumes "parseRequestBody ext = Inr requestBody"
    and "validateInput ext requestBody = Inr input"
    and "fromConnectionString ext (env_or_empty ext ''AzureWebJobsStorage'') = None"
    and "newServiceBusClient ext (env_or_empty ext ''ServiceBusConnectionString'') = None"
    and "createOrder ext input (snd (now ext w)) = (order, w1)"
    and "stages_then_close ext (StorageService (env_or_empty ext ''AzureWebJobsStorage''))
           (MessagingService (env_or_empty ext ''ServiceBusConnectionString'') ''order-processing'')
           order w1 = Some (outcome, w2)"
  shows "processOrder ext w =
           Some (case outcome of
              Inr response \<Rightarrow> (response, w2)
            | Inl error \<Rightarrow> (handleError error, snd (now ext w2)))"
  using assms
  by (simp add: processOrder_def pipeline_def new_StorageService_def new_MessagingService_def
        now_def split: sum.splits)

lemma within_2:
  "(\<exists>i<2. f (c + i) = None) \<longleftrightarrow> f c = None \<or> f (Suc c) = None"
  by (simp add: ex_less_2)

lemma within_3:
  "(\<exists>i<3. f (c + i) = None) \<longleftrightarrow> f c = None \<or> f (Suc c) = None \<or> f (Suc (Suc c)) = None"
  by (simp add: ex_less_3 numeral_2_eq_2)

lemma never_within_3:
  "(\<forall>k<3. f (c + k) \<noteq> None) \<longleftrightarrow>
     (\<exists>a b d. f c = Some a \<and> f (Suc c) = Some b \<and> f (Suc (Suc c)) = Some d)"
  by (auto simp: all_less_3 numeral_2_eq_2)

lemma stages_write_exhausted:
  assumes "\<exists>i<2. createIfNotExists ext (createCalls w + i) = None"
    and "\<forall>k<3. upload ext (uploadCalls w + k) \<noteq> None"
  shows "\<exists>w'. gateway_stages ext st ms order w =
           Some (Inl (OrderProcessingError ''Failed to store order in storage''
                        ''STORAGE_ERROR'' 500), w')
         \<and> sendCalls w' = sendCalls w \<and> closeCalls w' = closeCalls w \<and> queue w' = queue w
         \<and> blobs w' = blobs w \<and> uploadCalls w' = uploadCalls w + 3
         \<and> clockReads w' = clockReads w"
proof -
  from assms(2) obtain a b d where up: "upload ext (uploadCalls w) = Some a"
      "upload ext (Suc (uploadCalls w)) = Some b" "upload ext (Suc (Suc (uploadCalls w))) = Some d"
    unfolding never_within_3 by blast
  from assms(1) have "createIfNotExists ext (createCalls w) = None
      \<or> createIfNotExists ext (Suc (createCalls w)) = None"
    unfolding within_2 .
  then show ?thesis
    using up
    by (cases "createIfNotExists ext (createCalls w)")
       (auto simp: gateway_stages_def withRetry_initializeContainer withRetry_storeOrder)
qed

lemma stages_send_exhausted:
  assumes "\<exists>i<2. createIfNotExists ext (createCalls w + i) = None"
    and "\<exists>i<3. upload ext (uploadCalls w + i) = None"
    and "\<forall>k<3. sendMessages ext (sendCalls w + k) \<noteq> None"
  shows "\<exists>w'. gateway_stages ext st ms order w =
           Some (Inl (OrderProcessingError ''Failed to send order message''
                        ''MESSAGING_ERROR'' 500), w')
         \<and> sendCalls w' = sendCalls w + 3 \<and> closeCalls w' = closeCalls w \<and> queue w' = queue w
         \<and> blobs w' = (blobs w)(blobName order \<mapsto> order_blob order)
         \<and> (\<exists>i<2. createCalls w' = createCalls w + Suc i
                \<and> createIfNotExists ext (createCalls w + i) = None
                \<and> (\<forall>k<i. createIfNotExists ext (createCalls w + k) \<noteq> None))
         \<and> (\<exists>i<3. uploadCalls w' = uploadCalls w + Suc i
                \<and> upload ext (uploadCalls w + i) = None
                \<and> (\<forall>k<i. upload ext (uploadCalls w + k) \<noteq> None))"
proof -
  from assms(3) obtain a b d where send: "sendMessages ext (sendCalls w) = Some a"
      "sendMessages ext (Suc (sendCalls w)) = Some b"
      "sendMessages ext (Suc (Suc (sendCalls w))) = Some d"
    unfolding never_within_3 by blast
  from assms(1) have init: "createIfNotExists ext (createCalls w) = None
      \<or> createIfNotExists ext (Suc (createCalls w)) = None"
    unfolding within_2 .
  from assms(2) have up: "upload ext (uploadCalls w) = None
      \<or> upload ext (Suc (uploadCalls w)) = None \<or> upload ext (Suc (Suc (uploadCalls w))) = None"
    unfolding within_3 .
  define I where "I = (if createIfNotExists ext (createCalls w) = None then 0 else 1 :: nat)"
  define U where "U = (if upload ext (uploadCalls w) = None then 0
                       else if upload ext (Suc (uploadCalls w)) = None then 1 else 2 :: nat)"
  have I: "I < 2" "createIfNotExists ext (createCalls w + I) = None"
    "\<forall>k<I. createIfNotExists ext (createCalls w + k) \<noteq> None"
    using init by (auto simp: I_def)
  have U: "U < 3" "upload ext (uploadCalls w + U) = None"
    "\<forall>k<U. upload ext (uploadCalls w + k) \<noteq> None"
    using up by (auto simp: U_def less_2_cases_iff)
  have "\<exists>w'. gateway_stages ext st ms order w =
           Some (Inl (OrderProcessingError ''Failed to send order message''
                        ''MESSAGING_ERROR'' 500), w')
         \<and> sendCalls w' = sendCalls w + 3 \<and> closeCalls w' = closeCalls w \<and> queue w' = queue w
         \<and> blobs w' = (blobs w)(blobName order \<mapsto> order_blob order)
         \<and> createCalls w' = createCalls w + Suc I
         \<and> uploadCalls w' = uploadCalls w + Suc U"
    using init up send
    by (cases "createIfNotExists ext (createCalls w)"; cases "upload ext (uploadCalls w)";
        cases "upload ext (Suc (uploadCalls w))")
       (auto simp: gateway_stages_def retried_calls I_def U_def)
  with I U show ?thesis by blast
qed

lemma stages_send_attempted:
  assumes "\<exists>i<2. createIfNotExists ext (createCalls w + i) = None"
    and "\<exists>i<3. upload ext (uploadCalls w + i) = None"
  shows "\<exists>outcome w'. gateway_stages ext st ms order w = Some (outcome, w')
           \<and> sendCalls w < sendCalls w'"
proof -
  from assms(1) have init: "createIfNotExists ext (createCalls w) = None
      \<or> createIfNotExists ext (Suc (createCalls w)) = None"
    unfolding within_2 .
  from assms(2) have up: "upload ext (uploadCalls w) = None
      \<or> upload ext (Suc (uploadCalls w)) = None \<or> upload ext (Suc (Suc (uploadCalls w))) = None"
    unfolding within_3 .
  show ?thesis
    using init up
    by (cases "createIfNotExists ext (createCalls w)"; cases "upload ext (uploadCalls w)";
        cases "upload ext (Suc (uploadCalls w))")
       (auto simp: gateway_stages_def retried_calls now_def split: option.splits)
qed

text \<open>What a request that holds both service objects returns and leaves,
  from what the gateway stages return and leave.\<close>

lemma processOrder_after_stages:
  assumes "parseRequestBody ext = Inr requestBody"
    and "validateInput ext requestBody = Inr input"
    and "fromConnectionString ext (env_or_empty ext ''AzureWebJobsStorage'') = None"
    and "newServiceBusClient ext (env_or_empty ext ''ServiceBusConnectionString'') = None"
    and "gateway_stages ext (StorageService (env_or_empty ext ''AzureWebJobsStorage''))
           (MessagingService (env_or_empty ext ''ServiceBusConnectionString'') ''order-processing'')
           (fst (createOrder ext input (snd (now ext w))))
           (snd (createOrder ext input (snd (now ext w)))) = Some (outcome, w')"
  shows "\<exists>response w''. processOrder ext w = Some (response, w'')
           \<and> (senderClose ext = None \<and> clientClose ext = None \<longrightarrow>
                response = (case outcome of Inr ok \<Rightarrow> ok | Inl error \<Rightarrow> handleError error))
           \<and> (\<not> success (res_jsonBody (case outcome of Inr ok \<Rightarrow> ok
                                          | Inl error \<Rightarrow> handleError error))
                \<longrightarrow> \<not> success (res_jsonBody response))
           \<and> closeCalls w'' = Suc (closeCalls w')
           \<and> sendCalls w'' = sendCalls w'
           \<and> uploadCalls w'' = uploadCalls w'
           \<and> createCalls w'' = createCalls w'
           \<and> blobs w'' = blobs w'
           \<and> queue w'' = queue w'"
proof -
  let ?st = "StorageService (env_or_empty ext ''AzureWebJobsStorage'')"
  let ?ms = "MessagingService (env_or_empty ext ''ServiceBusConnectionString'') ''order-processing''"
  obtain order w1 where o: "createOrder ext input (snd (now ext w)) = (order, w1)"
    by (cases "createOrder ext input (snd (now ext w))")
  from assms(5) o have g: "gateway_stages ext ?st ?ms order w1 = Some (outcome, w')" by simp
  note r = stages_then_close_result [OF g]
  obtain result w2 where s: "stages_then_close ext ?st ?ms order w1 = Some (result, w2)"
    using r by (cases "senderClose ext"; cases "clientClose ext") auto
  note p = processOrder_with_services [OF assms(1-4) o s]
  from r s have rw: "(result, w2) =
     (case senderClose ext of
        Some msg \<Rightarrow> (Inl (NativeError msg),
                     w'\<lparr>closeCalls := Suc (closeCalls w'),
                       senderCloseCalls := Suc (senderCloseCalls w')\<rparr>)
      | None \<Rightarrow>
          (case clientClose ext of
             Some msg \<Rightarrow> (Inl (NativeError msg),
                          w'\<lparr>closeCalls := Suc (closeCalls w'),
                            senderCloseCalls := Suc (senderCloseCalls w'),
                            clientCloseCalls := Suc (clientCloseCalls w')\<rparr>)
           | None \<Rightarrow> (outcome,
                      w'\<lparr>closeCalls := Suc (closeCalls w'),
                        senderCloseCalls := Suc (senderCloseCalls w'),
                        clientCloseCalls := Suc (clientCloseCalls w')\<rparr>)))"
    by simp
  show ?thesis
    using p rw by (auto simp: now_def split: sum.splits option.splits)
qed

lemma createOrder_counters:
  "createCalls (snd (createOrder ext input (snd (now ext w)))) = createCalls w"
  "uploadCalls (snd (createOrder ext input (snd (now ext w)))) = uploadCalls w"
  "sendCalls (snd (createOrder ext input (snd (now ext w)))) = sendCalls w"
  "closeCalls (snd (createOrder ext input (snd (now ext w)))) = closeCalls w"
  "blobs (snd (createOrder ext input (snd (now ext w)))) = blobs w"
  "queue (snd (createOrder ext input (snd (now ext w)))) = queue w"
  by (simp_all add: createOrder_def now_def)

lemma validateInput_dates_not_ordered:
  assumes "map_of kvs ''employeeId'' = Some (JString e)" and "e \<noteq> []"
    and "map_of kvs ''bikeModel'' = Some (JString b)" and "b \<noteq> []"
    and "map_of kvs ''startDate'' = Some (JString sd)" and "isDatetime ext sd"
    and "map_of kvs ''endDate'' = Some (JString ed)" and "isDatetime ext ed"
    and "map_of kvs ''price'' = Some (JNumber p)" and "0 < p"
    and "map_of kvs ''currency'' = Some (JString c)" and "length c = 3"
    and "map_of kvs ''companyId'' = Some (JString co)" and "co \<noteq> []"
    and "\<not> date_gt (parseDate ext ed) (parseDate ext sd)"
  shows "validateInput ext (JObject kvs) =
           Inl (ValidationError ''Validation failed''
                  [''endDate: End date must be after start date''])"
  using assms by (simp add: schema_defs Suc_le_eq)

subsection \<open>The number of calls of close\<close>

lemma close_closeCalls: "closeCalls (snd (close ext ms w)) = Suc (closeCalls w)"
  by (simp add: close_def Let_def split: option.splits)

lemma stages_then_close_closeCalls:
  "\<exists>outcome w'. stages_then_close ext st ms order w = Some (outcome, w')
      \<and> closeCalls w' = Suc (closeCalls w)"
proof -
  from gateway_stages_returns [of ext st ms order w]
  obtain r w1 where g: "gateway_stages ext st ms order w = Some (r, w1)"
    and c: "closeCalls w1 = closeCalls w" by blast
  show ?thesis
    using c by (simp add: stages_then_close_result [OF g] split: option.splits)
qed

lemma createOrder_closeCalls: "closeCalls (snd (createOrder ext input w)) = closeCalls w"
  by (simp add: createOrder_def now_def)

lemma pipeline_closeCalls:
  "\<exists>outcome w'. pipeline ext w = Some (outcome, w')
     \<and> closeCalls w' = (if services_constructed ext then Suc (closeCalls w) else closeCalls w)"
proof (cases "parseRequestBody ext")
  case (Inl e)
  then show ?thesis by (simp add: pipeline_def services_constructed_def)
next
  case body: (Inr requestBody)
  show ?thesis
  proof (cases "validateInput ext requestBody")
    case (Inl e)
    with body show ?thesis by (simp add: pipeline_def services_constructed_def)
  next
    case input: (Inr validatedInput)
    obtain order w1 where o: "createOrder ext validatedInput w = (order, w1)"
      by (cases "createOrder ext validatedInput w")
    have w1: "closeCalls w1 = closeCalls w"
      using createOrder_closeCalls [of ext validatedInput w] o by simp
    show ?thesis
      using body input o w1 stages_then_close_closeCalls [of ext _ _ order w1]
      by (simp add: pipeline_def services_constructed_def new_StorageService_def
            new_MessagingService_def split: option.splits)
  qed
qed

section \<open>The retry policy\<close>

text \<open>
  C2 (as amended). Let the policy have \<open>maxAttempts = n\<close> with
  \<open>1 \<le> n \<le> 2 ^ 53\<close>, and let the operation fail at each of its first \<open>n\<close>
  calls, with a value other than \<open>undefined\<close> and \<open>null\<close> at each call before
  the \<open>n\<close>-th. Then \<open>withRetry\<close> returns, whatever the other three numbers of
  the policy and the arithmetic of the runtime are: it calls the operation
  exactly \<open>n\<close> times (the trace holds \<open>n\<close> events \<open>Called\<close>, and the state is
  the one that \<open>n\<close> calls leave) and throws the very error \<open>e\<close> that the
  \<open>n\<close>-th call threw.
\<close>

theorem withRetry_exhausted:
  assumes "0 < n" and "n \<le> 2 ^ 53"
    and "\<forall>k<n. isl (fst (operation (state_after operation k s)))"
    and "\<forall>k. Suc k < n \<longrightarrow>
           fst (operation (state_after operation k s)) \<noteq> Inl Undefined
           \<and> fst (operation (state_after operation k s)) \<noteq> Inl Null"
  shows "\<exists>e tr. fst (operation (state_after operation (n - 1) s)) = Inl e
           \<and> withRetry rt traced_sleep (traced operation)
                (options\<lparr>opt_maxAttempts := Some (Num (real n))\<rparr>) ([], s)
               = Some (Inl e, tr, state_after operation n s)
           \<and> length (filter (\<lambda>ev. ev = Called) tr) = n"
proof -
  obtain j where j: "n = Suc j" using assms(1) by (cases n) simp_all
  let ?options = "options\<lparr>opt_maxAttempts := Some (Num (real n))\<rparr>"
  let ?config = "merge_options DEFAULT_RETRY_OPTIONS ?options"
  let ?top = "traced operation"
  have m: "maxAttempts ?config = Num (real n)" by (rule maxAttempts_merge)
  have an: "attempt_number (Suc k) = Suc k" if "k \<le> j" for k
    using that assms(2) j by (intro attempt_number_exact) simp
  from assms(3) j obtain e where e: "fst (operation (state_after operation j s)) = Inl e"
    by (auto simp: isl_def)
  have fails: "\<exists>e msg. fst (?top (retry_state rt traced_sleep ?top ?config k ([], s))) = Inl e
                 \<and> read_message e = Inr msg" if "k < j" for k
  proof -
    from that j have "k < n" by simp
    with assms(3) have "isl (fst (operation (state_after operation k s)))" by blast
    then obtain e' where e': "fst (operation (state_after operation k s)) = Inl e'"
      by (auto simp: isl_def)
    with that assms(4) j have "e' \<noteq> Undefined" "e' \<noteq> Null" by auto
    then obtain msg where "read_message e' = Inr msg" using read_message_Inr by blast
    with e' show ?thesis by (simp add: retry_state_traced traced_apply)
  qed
  have "retry_loop rt traced_sleep ?top ?config (int (attempt_number (Suc 0))) Undefined
          (retry_state rt traced_sleep ?top ?config 0 ([], s))
        = Some (?top (retry_state rt traced_sleep ?top ?config j ([], s)))"
  proof (rule retry_loop_last_call)
    show "0 \<le> j" by simp
    show "\<forall>k. 0 \<le> k \<and> k \<le> j \<longrightarrow>
            num_le (Num (real (attempt_number (Suc k)))) (maxAttempts ?config)"
      by (simp only: m) (simp add: j an)
    show "\<forall>k. 0 \<le> k \<and> k < j \<longrightarrow>
           \<not> num_eq (Num (real (attempt_number (Suc k)))) (maxAttempts ?config)
           \<and> (\<exists>e msg. fst (?top (retry_state rt traced_sleep ?top ?config k ([], s))) = Inl e
                  \<and> read_message e = Inr msg)"
      using fails by (simp only: m) (simp add: j an)
    show "num_eq (Num (real (attempt_number (Suc j)))) (maxAttempts ?config)
         \<or> \<not> isl (fst (?top (retry_state rt traced_sleep ?top ?config j ([], s))))"
      by (simp only: m) (simp add: j an)
  qed
  then have "withRetry rt traced_sleep ?top ?options ([], s)
        = Some (fst (operation (state_after operation j s)),
            waits rt ?config 1 j @ [Called], state_after operation (Suc j) s)"
    by (simp add: withRetry_def retry_state_traced traced_apply attempt_number_numeral)
  with e j show ?thesis
    by (simp add: count_called_waits)
qed

text \<open>Counterexample to C2 as stated: an operation that rejects with
  \<open>undefined\<close> at every call, under \<open>maxAttempts = 3\<close>. The warning in the first
  \<open>catch\<close> block reads \<open>lastError.message\<close>: \<open>withRetry\<close> calls the operation
  once, not three times, and throws a \<open>TypeError\<close> that no call of the
  operation threw.\<close>

theorem withRetry_rejected_with_undefined:
  "isl (fst (rejects_undefined (state_after rejects_undefined 0 0)))
   \<and> isl (fst (rejects_undefined (state_after rejects_undefined 1 0)))
   \<and> isl (fst (rejects_undefined (state_after rejects_undefined 2 0)))
   \<and> withRetry whole_number_arithmetic traced_sleep (traced rejects_undefined)
        (no_options\<lparr>opt_maxAttempts := Some (Num 3)\<rparr>) ([], 0)
       = Some (Inl (NativeError
                      ''TypeError: Cannot read properties of undefined (reading message)''),
               [Called], 1)"
  by (simp add: retry_config retry_unfold traced_apply rejects_undefined_def)

text \<open>Witness for C2: three attempts of an operation that always fails; the
  error thrown is the one of the third call.\<close>

theorem withRetry_exhausted_witness:
  "0 < (3::nat) \<and> (3::nat) \<le> 2 ^ 53
   \<and> isl (fst (always_failing (state_after always_failing 0 0)))
   \<and> isl (fst (always_failing (state_after always_failing 1 0)))
   \<and> isl (fst (always_failing (state_after always_failing 2 0)))
   \<and> fst (always_failing (state_after always_failing 0 0)) \<noteq> Inl Undefined
   \<and> fst (always_failing (state_after always_failing 0 0)) \<noteq> Inl Null
   \<and> fst (always_failing (state_after always_failing 1 0)) \<noteq> Inl Undefined
   \<and> fst (always_failing (state_after always_failing 1 0)) \<noteq> Inl Null
   \<and> (\<exists>tr. fst (always_failing (state_after always_failing 2 0))
               = Inl (OrderProcessingError ''down'' ''E'' 2)
          \<and> withRetry whole_number_arithmetic traced_sleep (traced always_failing)
               (no_options\<lparr>opt_maxAttempts := Some (Num 3)\<rparr>) ([], 0)
              = Some (Inl (OrderProcessingError ''down'' ''E'' 2), tr, 3)
          \<and> length (filter (\<lambda>ev. ev = Called) tr) = 3)"
proof -
  have h1: "0 < (3::nat)" by simp
  have h0: "(3::nat) \<le> 2 ^ 53" by simp
  have h2: "\<forall>k<3. isl (fst (always_failing (state_after always_failing k 0)))"
    by (simp add: always_failing_def)
  have h3: "\<forall>k. Suc k < 3 \<longrightarrow>
           fst (always_failing (state_after always_failing k 0)) \<noteq> Inl Undefined
           \<and> fst (always_failing (state_after always_failing k 0)) \<noteq> Inl Null"
    by (simp add: always_failing_def)
  from withRetry_exhausted [OF h1 h0 h2 h3, of whole_number_arithmetic no_options] h1 h0
  show ?thesis
    by (simp add: always_failing_state) (auto simp: always_failing_def)
qed



section \<open>Parsing and validation\<close>

text \<open>
  C8 (as amended). When \<open>request.json()\<close> rejects, with any error that is not a
  \<open>ValidationError\<close>, the response has status 400, the message
  \<open>Invalid JSON in request body\<close> and an \<open>errors\<close> list holding the one
  generic entry \<open>Request body must be valid JSON\<close>; the world is left as it
  was but for two readings of the clock: no client is constructed, and no
  gateway operation, wait or release takes place.
\<close>

theorem malformed_body_rejected:
  assumes "request_json ext = Inl error"
    and "\<forall>msg es. error \<noteq> ValidationError msg es"
  shows "processOrder ext w =
           Some (\<lparr>res_status = 400,
                  res_jsonBody = \<lparr>success = False, orderId = None,
                                   message = ''Invalid JSON in request body'',
                                   errors = Some [''Request body must be valid JSON''],
                                   code = None\<rparr>\<rparr>,
                 w\<lparr>clockReads := Suc (Suc (clockReads w))\<rparr>)"
  using assms by (cases error) (simp_all add: pipeline_defs)

text \<open>Counterexample to C8 as stated: the response to a body that is not JSON
  does carry a list of violations.\<close>

theorem malformed_body_has_errors_list:
  "request_json malformed = Inl (NativeError ''Unexpected token'')
   \<and> (\<exists>response w'. processOrder malformed world0 = Some (response, w')
         \<and> errors (res_jsonBody response) = Some [''Request body must be valid JSON'']
         \<and> errors (res_jsonBody response) \<noteq> None)"
  by (simp add: pipeline_defs scenario_defs variant_defs)

text \<open>Witness for C8.\<close>

theorem malformed_body_rejected_witness:
  "request_json malformed = Inl (NativeError ''Unexpected token'')
   \<and> processOrder malformed world0 =
           Some (\<lparr>res_status = 400,
                  res_jsonBody = \<lparr>success = False, orderId = None,
                                   message = ''Invalid JSON in request body'',
                                   errors = Some [''Request body must be valid JSON''],
                                   code = None\<rparr>\<rparr>,
                 world0\<lparr>clockReads := 2\<rparr>)"
proof -
  have h1: "request_json malformed = Inl (NativeError ''Unexpected token'')"
    by (simp add: variant_defs)
  have h2: "\<forall>msg es. NativeError ''Unexpected token'' \<noteq> ValidationError msg es" by simp
  from malformed_body_rejected [OF h1 h2, of world0] h1 show ?thesis
    by (simp add: world0_def)
qed

text \<open>
  C4. Let the payload be an object whose seven fields have the right types and
  pass their own checks, and whose two dates are valid with \<open>endDate \<le> startDate\<close>.
  Then the response is the validation failure of status 400 whose \<open>errors\<close>
  list is the one message \<open>endDate: End date must be after start date\<close>, which
  ends in \<open>End date must be after start date\<close>; the world is left as it was
  but for two readings of the clock, so that neither the persistence gateway
  nor the notification gateway is invoked.
\<close>

theorem end_not_after_start_rejected:
  assumes "request_json ext = Inr (JObject kvs)"
    and "map_of kvs ''employeeId'' = Some (JString e)" and "e \<noteq> []"
    and "map_of kvs ''bikeModel'' = Some (JString b)" and "b \<noteq> []"
    and "map_of kvs ''startDate'' = Some (JString sd)" and "isDatetime ext sd"
    and "map_of kvs ''endDate'' = Some (JString ed)" and "isDatetime ext ed"
    and "map_of kvs ''price'' = Some (JNumber p)" and "0 < p"
    and "map_of kvs ''currency'' = Some (JString c)" and "length c = 3"
    and "map_of kvs ''companyId'' = Some (JString co)" and "co \<noteq> []"
    and "parseDate ext sd = Some start" and "parseDate ext ed = Some end"
    and "end \<le> start"
  shows "processOrder ext w =
           Some (\<lparr>res_status = 400,
                  res_jsonBody = \<lparr>success = False, orderId = None,
                                   message = ''Validation failed'',
                                   errors = Some [''endDate: End date must be after start date''],
                                   code = None\<rparr>\<rparr>,
                 w\<lparr>clockReads := Suc (Suc (clockReads w))\<rparr>)"
proof -
  have "\<not> date_gt (parseDate ext ed) (parseDate ext sd)"
    using assms(16-18) by simp
  then have "validateInput ext (JObject kvs) =
           Inl (ValidationError ''Validation failed''
                  [''endDate: End date must be after start date''])"
    using assms(2-15) by (intro validateInput_dates_not_ordered)
  then show ?thesis
    using assms(1)
    by (simp add: processOrder_def pipeline_def parseRequestBody_def now_def)
qed

text \<open>Witness for C4: Scenario B.\<close>

theorem end_not_after_start_rejected_witness:
  "request_json dates_reversed = Inr payload_B
   \<and> parseDate dates_reversed ''2024-01-02T00:00:00Z'' = Some 1704153600000
   \<and> parseDate dates_reversed ''2024-01-01T00:00:00Z'' = Some 1704067200000
   \<and> (1704067200000 :: int) \<le> 1704153600000
   \<and> processOrder dates_reversed world0 =
           Some (\<lparr>res_status = 400,
                  res_jsonBody = \<lparr>success = False, orderId = None,
                                   message = ''Validation failed'',
                                   errors = Some [''endDate: End date must be after start date''],
                                   code = None\<rparr>\<rparr>,
                 world0\<lparr>clockReads := 2\<rparr>)"
proof -
  let ?kvs = "[(''employeeId'', JString ''e1''), (''bikeModel'', JString ''M''),
      (''startDate'', JString ''2024-01-02T00:00:00Z''),
      (''endDate'', JString ''2024-01-01T00:00:00Z''),
      (''price'', JNumber 10), (''currency'', JString ''USD''),
      (''companyId'', JString ''c1'')]"
  have h1: "request_json dates_reversed = Inr (JObject ?kvs)"
    by (simp add: variant_defs scenario_defs)
  have f1: "map_of ?kvs ''employeeId'' = Some (JString ''e1'')" and n1: "''e1'' \<noteq> []"
    and f2: "map_of ?kvs ''bikeModel'' = Some (JString ''M'')" and n2: "''M'' \<noteq> []"
    and f3: "map_of ?kvs ''startDate'' = Some (JString ''2024-01-02T00:00:00Z'')"
    and f4: "map_of ?kvs ''endDate'' = Some (JString ''2024-01-01T00:00:00Z'')"
    and f5: "map_of ?kvs ''price'' = Some (JNumber 10)" and n5: "(0::real) < 10"
    and f6: "map_of ?kvs ''currency'' = Some (JString ''USD'')" and n6: "length ''USD'' = 3"
    and f7: "map_of ?kvs ''companyId'' = Some (JString ''c1'')" and n7: "''c1'' \<noteq> []"
    by simp_all
  have d3: "isDatetime dates_reversed ''2024-01-02T00:00:00Z''"
    and d4: "isDatetime dates_reversed ''2024-01-01T00:00:00Z''"
    by (simp_all add: variant_defs scenario_defs)
  have p3: "parseDate dates_reversed ''2024-01-02T00:00:00Z'' = Some 1704153600000"
    and p4: "parseDate dates_reversed ''2024-01-01T00:00:00Z'' = Some 1704067200000"
    by (simp_all add: variant_defs scenario_defs)
  have le: "(1704067200000 :: int) \<le> 1704153600000" by simp
  from end_not_after_start_rejected
         [OF h1 f1 n1 f2 n2 f3 d3 f4 d4 f5 n5 f6 n6 f7 n7 p3 p4 le, of world0]
  show ?thesis
    using p3 p4 by (simp add: variant_defs scenario_defs)
qed

section \<open>The record builder\<close>

text \<open>
  C9 (as amended). The order that \<open>createOrder\<close> builds has the identifier that
  the UUID generator returns, whatever the input is, the status \<open>PENDING\<close>, the
  fields of the input, and as \<open>createdAt\<close> and \<open>updatedAt\<close> two successive
  readings of the clock: the two are equal exactly when the clock does not
  advance between the readings.
\<close>

theorem createOrder_record:
  "createOrder ext input w =
     (\<lparr>id' = uuidv4 ext,
       employeeId = req_employeeId input,
       bikeModel = req_bikeModel input,
       startDate = parseDate ext (req_startDate input),
       endDate = parseDate ext (req_endDate input),
       status = PENDING,
       price = req_price input,
       currency = req_currency input,
       companyId = req_companyId input,
       createdAt = Some (clock ext (clockReads w)),
       updatedAt = Some (clock ext (Suc (clockReads w)))\<rparr>,
      w\<lparr>clockReads := Suc (Suc (clockReads w))\<rparr>)
   \<and> (createdAt (fst (createOrder ext input w)) = updatedAt (fst (createOrder ext input w))
        \<longleftrightarrow> clock ext (clockReads w) = clock ext (Suc (clockReads w)))"
  by (simp add: createOrder_def now_def)

text \<open>Counterexample to C9 as stated: a valid payload whose \<open>employeeId\<close> is the
  identifier that the generator returns, and a clock that advances between
  the two readings: the identifier equals a field of the input, and
  \<open>createdAt\<close> differs from \<open>updatedAt\<close>.\<close>

theorem createOrder_id_and_stamps:
  "validateInput same_id payload_C = Inr input_C
   \<and> id' (fst (createOrder same_id input_C world0)) = req_employeeId input_C
   \<and> createdAt (fst (createOrder same_id input_C world0))
       \<noteq> updatedAt (fst (createOrder same_id input_C world0))"
  by (simp add: schema_defs createOrder_def now_def scenario_defs variant_defs)

text \<open>Witness for C9: the order of Scenario A.\<close>

theorem createOrder_record_witness:
  "createOrder healthy input_A (world0\<lparr>clockReads := 1\<rparr>) = (order_A, world0\<lparr>clockReads := 3\<rparr>)"
  using createOrder_record [of healthy input_A "world0\<lparr>clockReads := 1\<rparr>"]
  by (simp add: scenario_defs variant_defs)

section \<open>The gateway stages\<close>

text \<open>
  C5 (what the code does). When the payload is valid and the constructor of one
  of the two clients throws on its connection string, no gateway operation is
  attempted, nothing is retried and nothing is released: the world is left as
  it was but for four readings of the clock. The response has status 500 and
  the fixed message \<open>Internal server error\<close>; it carries no machine code, the
  error being none of the classes that \<open>handleError\<close> knows.
\<close>

theorem constructor_failure_unclassified:
  assumes "parseRequestBody ext = Inr requestBody"
    and "validateInput ext requestBody = Inr input"
    and "fromConnectionString ext (env_or_empty ext ''AzureWebJobsStorage'') = Some msg
         \<or> (fromConnectionString ext (env_or_empty ext ''AzureWebJobsStorage'') = None
            \<and> newServiceBusClient ext (env_or_empty ext ''ServiceBusConnectionString'')
                = Some msg)"
  shows "processOrder ext w =
           Some (\<lparr>res_status = 500,
                  res_jsonBody = \<lparr>success = False, orderId = None,
                                   message = ''Internal server error'',
                                   errors = None, code = None\<rparr>\<rparr>,
                 w\<lparr>clockReads := clockReads w + 4\<rparr>)"
  using assms
  by (auto simp: processOrder_def pipeline_def createOrder_def now_def new_StorageService_def
        new_MessagingService_def)

text \<open>Witness for C5: Scenario A without the variable \<open>AzureWebJobsStorage\<close>.\<close>

theorem constructor_failure_unclassified_witness:
  "parseRequestBody storage_unconfigured = Inr payload_A
   \<and> validateInput storage_unconfigured payload_A = Inr input_A
   \<and> env storage_unconfigured ''AzureWebJobsStorage'' = None
   \<and> fromConnectionString storage_unconfigured
        (env_or_empty storage_unconfigured ''AzureWebJobsStorage'')
       = Some ''Invalid connection string''
   \<and> processOrder storage_unconfigured world0 =
           Some (\<lparr>res_status = 500,
                  res_jsonBody = \<lparr>success = False, orderId = None,
                                   message = ''Internal server error'',
                                   errors = None, code = None\<rparr>\<rparr>,
                 world0\<lparr>clockReads := 4\<rparr>)"
proof -
  have h1: "parseRequestBody storage_unconfigured = Inr payload_A"
    by (simp add: parseRequestBody_def scenario_defs variant_defs)
  have h2: "validateInput storage_unconfigured payload_A = Inr input_A"
    by (simp add: schema_defs scenario_defs variant_defs)
  have h3: "fromConnectionString storage_unconfigured
              (env_or_empty storage_unconfigured ''AzureWebJobsStorage'')
            = Some ''Invalid connection string''"
    by (simp add: env_or_empty_def scenario_defs variant_defs)
  have h4: "env storage_unconfigured ''AzureWebJobsStorage'' = None"
    by (simp add: scenario_defs variant_defs)
  from constructor_failure_unclassified [OF h1 h2 disjI1 [OF h3], of world0] h1 h2 h3 h4
  show ?thesis
    by (simp add: world0_def)
qed

text \<open>
  C7 (as amended). Let the payload be valid, both clients be constructed, the
  container be initialised within its two attempts, and the upload reject at
  each of its three attempts. Then the upload is called three times, no send
  is attempted and nothing is queued, and \<open>close\<close> is called exactly once; and
  when \<open>close\<close> itself does not reject, the response has status 500, the
  message \<open>Failed to store order in storage\<close> and the code \<open>STORAGE_ERROR\<close>.
\<close>

theorem write_exhausted:
  assumes "parseRequestBody ext = Inr requestBody"
    and "validateInput ext requestBody = Inr input"
    and "fromConnectionString ext (env_or_empty ext ''AzureWebJobsStorage'') = None"
    and "newServiceBusClient ext (env_or_empty ext ''ServiceBusConnectionString'') = None"
    and "\<exists>i<2. createIfNotExists ext (createCalls w + i) = None"
    and "\<forall>k<3. upload ext (uploadCalls w + k) \<noteq> None"
  shows "\<exists>response w'. processOrder ext w = Some (response, w')
         \<and> (senderClose ext = None \<and> clientClose ext = None \<longrightarrow>
              response =
                \<lparr>res_status = 500,
                 res_jsonBody = \<lparr>success = False, orderId = None,
                                  message = ''Failed to store order in storage'',
                                  errors = None, code = Some ''STORAGE_ERROR''\<rparr>\<rparr>)
         \<and> uploadCalls w' = uploadCalls w + 3
         \<and> sendCalls w' = sendCalls w
         \<and> queue w' = queue w
         \<and> closeCalls w' = Suc (closeCalls w)"
proof -
  let ?st = "StorageService (env_or_empty ext ''AzureWebJobsStorage'')"
  let ?ms = "MessagingService (env_or_empty ext ''ServiceBusConnectionString'') ''order-processing''"
  let ?order = "fst (createOrder ext input (snd (now ext w)))"
  let ?w1 = "snd (createOrder ext input (snd (now ext w)))"
  from assms(5,6) stages_write_exhausted [of ext ?w1 ?st ?ms ?order]
  obtain w1' where g: "gateway_stages ext ?st ?ms ?order ?w1 =
      Some (Inl (OrderProcessingError ''Failed to store order in storage'' ''STORAGE_ERROR'' 500),
            w1')"
    and f: "sendCalls w1' = sendCalls w" "closeCalls w1' = closeCalls w" "queue w1' = queue w"
      "uploadCalls w1' = uploadCalls w + 3"
    by (auto simp: createOrder_counters)
  from processOrder_after_stages [OF assms(1-4) g] f show ?thesis
    by auto
qed

text \<open>Counterexample to C7 as stated: every upload rejects and the sender's
  \<open>close\<close> rejects too; the error thrown in the \<open>finally\<close> block replaces the
  storage error, and the response carries no code.\<close>

theorem write_exhausted_close_fails:
  "upload storage_down_close_fails 0 \<noteq> None
   \<and> upload storage_down_close_fails 1 \<noteq> None
   \<and> upload storage_down_close_fails 2 \<noteq> None
   \<and> (\<exists>w'. processOrder storage_down_close_fails world0 =
         Some (\<lparr>res_status = 500,
                res_jsonBody = \<lparr>success = False, orderId = None,
                                 message = ''Internal server error'',
                                 errors = None, code = None\<rparr>\<rparr>, w'))"
  by (simp add: pipeline_defs schema_defs gateway_defs retry_config retry_unfold scenario_defs
        variant_defs)

text \<open>Witness for C7: Scenario D.\<close>

theorem write_exhausted_witness:
  "parseRequestBody storage_down = Inr payload_A
   \<and> validateInput storage_down payload_A = Inr input_A
   \<and> upload storage_down 0 \<noteq> None \<and> upload storage_down 1 \<noteq> None \<and> upload storage_down 2 \<noteq> None
   \<and> (\<exists>w'. processOrder storage_down world0 =
          Some (\<lparr>res_status = 500,
                 res_jsonBody = \<lparr>success = False, orderId = None,
                                  message = ''Failed to store order in storage'',
                                  errors = None, code = Some ''STORAGE_ERROR''\<rparr>\<rparr>, w')
        \<and> uploadCalls w' = 3 \<and> sendCalls w' = 0 \<and> closeCalls w' = 1)"
proof -
  have h1: "parseRequestBody storage_down = Inr payload_A"
    by (simp add: parseRequestBody_def scenario_defs variant_defs)
  have h2: "validateInput storage_down payload_A = Inr input_A"
    by (simp add: schema_defs scenario_defs variant_defs)
  have h3: "fromConnectionString storage_down (env_or_empty storage_down ''AzureWebJobsStorage'') = None"
    by (simp add: env_or_empty_def scenario_defs variant_defs)
  have h4: "newServiceBusClient storage_down
              (env_or_empty storage_down ''ServiceBusConnectionString'') = None"
    by (simp add: env_or_empty_def scenario_defs variant_defs)
  have h5: "\<exists>i<2. createIfNotExists storage_down (createCalls world0 + i) = None"
    by (intro exI [of _ 0]) (simp add: scenario_defs variant_defs)
  have h6: "\<forall>k<3. upload storage_down (uploadCalls world0 + k) \<noteq> None"
    by (simp add: scenario_defs variant_defs)
  have c: "senderClose storage_down = None" "clientClose storage_down = None"
    "uploadCalls world0 = 0" "sendCalls world0 = 0" "closeCalls world0 = 0"
    "upload storage_down 0 \<noteq> None" "upload storage_down 1 \<noteq> None" "upload storage_down 2 \<noteq> None"
    by (simp_all add: scenario_defs variant_defs)
  from write_exhausted [OF h1 h2 h3 h4 h5 h6] h1 h2 c show ?thesis
    by auto
qed

text \<open>
  C6 (as amended). Let the payload be valid, both clients be constructed, the
  container be initialised within its two attempts, the upload succeed within
  its three attempts, and the send reject at each of its three attempts. Then
  the send is called three times and \<open>close\<close> exactly once. The container
  holds the blob of the order as it was uploaded, and no storage operation
  follows the upload: the initialisation of the container and the upload have
  each been called up to their first success and not again. And when \<open>close\<close>
  itself does not reject, the response has status 500, the message
  \<open>Failed to send order message\<close> and the code \<open>MESSAGING_ERROR\<close>.
\<close>

theorem notification_exhausted:
  assumes "parseRequestBody ext = Inr requestBody"
    and "validateInput ext requestBody = Inr input"
    and "fromConnectionString ext (env_or_empty ext ''AzureWebJobsStorage'') = None"
    and "newServiceBusClient ext (env_or_empty ext ''ServiceBusConnectionString'') = None"
    and "\<exists>i<2. createIfNotExists ext (createCalls w + i) = None"
    and "\<exists>i<3. upload ext (uploadCalls w + i) = None"
    and "\<forall>k<3. sendMessages ext (sendCalls w + k) \<noteq> None"
    and "order = fst (createOrder ext input (snd (now ext w)))"
  shows "\<exists>response w'. processOrder ext w = Some (response, w')
         \<and> (senderClose ext = None \<and> clientClose ext = None \<longrightarrow>
              response =
                \<lparr>res_status = 500,
                 res_jsonBody = \<lparr>success = False, orderId = None,
                                  message = ''Failed to send order message'',
                                  errors = None, code = Some ''MESSAGING_ERROR''\<rparr>\<rparr>)
         \<and> sendCalls w' = sendCalls w + 3
         \<and> blobs w' = (blobs w)(blobName order \<mapsto> order_blob order)
         \<and> (\<exists>i<2. createCalls w' = createCalls w + Suc i
                \<and> createIfNotExists ext (createCalls w + i) = None
                \<and> (\<forall>k<i. createIfNotExists ext (createCalls w + k) \<noteq> None))
         \<and> (\<exists>i<3. uploadCalls w' = uploadCalls w + Suc i
                \<and> upload ext (uploadCalls w + i) = None
                \<and> (\<forall>k<i. upload ext (uploadCalls w + k) \<noteq> None))
         \<and> closeCalls w' = Suc (closeCalls w)"
proof -
  let ?st = "StorageService (env_or_empty ext ''AzureWebJobsStorage'')"
  let ?ms = "MessagingService (env_or_empty ext ''ServiceBusConnectionString'') ''order-processing''"
  let ?order = "fst (createOrder ext input (snd (now ext w)))"
  let ?w1 = "snd (createOrder ext input (snd (now ext w)))"
  from assms(5-7) stages_send_exhausted [of ext ?w1 ?st ?ms ?order]
  obtain w1' where g: "gateway_stages ext ?st ?ms ?order ?w1 =
      Some (Inl (OrderProcessingError ''Failed to send order message'' ''MESSAGING_ERROR'' 500),
            w1')"
    and f: "sendCalls w1' = sendCalls w + 3" "closeCalls w1' = closeCalls w"
      "blobs w1' = (blobs w)(blobName ?order \<mapsto> order_blob ?order)"
    and c: "\<exists>i<2. createCalls w1' = createCalls w + Suc i
                \<and> createIfNotExists ext (createCalls w + i) = None
                \<and> (\<forall>k<i. createIfNotExists ext (createCalls w + k) \<noteq> None)"
    and u: "\<exists>i<3. uploadCalls w1' = uploadCalls w + Suc i
                \<and> upload ext (uploadCalls w + i) = None
                \<and> (\<forall>k<i. upload ext (uploadCalls w + k) \<noteq> None)"
    by (auto simp: createOrder_counters)
  from processOrder_after_stages [OF assms(1-4) g]
  obtain response w' where p: "processOrder ext w = Some (response, w')"
    and r: "senderClose ext = None \<and> clientClose ext = None \<longrightarrow>
              response = handleError (OrderProcessingError ''Failed to send order message''
                                        ''MESSAGING_ERROR'' 500)"
    and k: "closeCalls w' = Suc (closeCalls w1')" "sendCalls w' = sendCalls w1'"
      "uploadCalls w' = uploadCalls w1'" "createCalls w' = createCalls w1'"
      "blobs w' = blobs w1'"
    by auto
  show ?thesis
    using p r k f c u assms(8) by simp
qed

text \<open>Counterexample to C6 as stated: every send rejects and the sender's
  \<open>close\<close> rejects too; the order is stored, and the response carries no code
  that names the notification gateway.\<close>

theorem notification_exhausted_close_fails:
  "sendMessages bus_down_close_fails 0 \<noteq> None
   \<and> sendMessages bus_down_close_fails 1 \<noteq> None
   \<and> sendMessages bus_down_close_fails 2 \<noteq> None
   \<and> (\<exists>w'. processOrder bus_down_close_fails world0 =
         Some (\<lparr>res_status = 500,
                res_jsonBody = \<lparr>success = False, orderId = None,
                                 message = ''Internal server error'',
                                 errors = None, code = None\<rparr>\<rparr>, w')
        \<and> blobs w' (blobName order_A) = Some (order_blob order_A))"
  by (simp add: pipeline_defs schema_defs gateway_defs retry_config retry_unfold scenario_defs
        variant_defs)

text \<open>Witness for C6: Scenario A with a queue that rejects every send; the
  container is initialised once and the blob uploaded once.\<close>

theorem notification_exhausted_witness:
  "parseRequestBody bus_down = Inr payload_A
   \<and> validateInput bus_down payload_A = Inr input_A
   \<and> sendMessages bus_down 0 \<noteq> None \<and> sendMessages bus_down 1 \<noteq> None
   \<and> sendMessages bus_down 2 \<noteq> None
   \<and> (\<exists>w'. processOrder bus_down world0 =
          Some (\<lparr>res_status = 500,
                 res_jsonBody = \<lparr>success = False, orderId = None,
                                  message = ''Failed to send order message'',
                                  errors = None, code = Some ''MESSAGING_ERROR''\<rparr>\<rparr>, w')
        \<and> sendCalls w' = 3
        \<and> blobs w' = [blobName order_A \<mapsto> order_blob order_A]
        \<and> createCalls w' = 1 \<and> uploadCalls w' = 1
        \<and> closeCalls w' = 1)"
proof -
  have h1: "parseRequestBody bus_down = Inr payload_A"
    by (simp add: parseRequestBody_def scenario_defs variant_defs)
  have h2: "validateInput bus_down payload_A = Inr input_A"
    by (simp add: schema_defs scenario_defs variant_defs)
  have h3: "fromConnectionString bus_down (env_or_empty bus_down ''AzureWebJobsStorage'') = None"
    by (simp add: env_or_empty_def scenario_defs variant_defs)
  have h4: "newServiceBusClient bus_down
              (env_or_empty bus_down ''ServiceBusConnectionString'') = None"
    by (simp add: env_or_empty_def scenario_defs variant_defs)
  have h5: "\<exists>i<2. createIfNotExists bus_down (createCalls world0 + i) = None"
    by (intro exI [of _ 0]) (simp add: scenario_defs variant_defs)
  have h6: "\<exists>i<3. upload bus_down (uploadCalls world0 + i) = None"
    by (intro exI [of _ 0]) (simp add: scenario_defs variant_defs)
  have h7: "\<forall>k<3. sendMessages bus_down (sendCalls world0 + k) \<noteq> None"
    by (simp add: scenario_defs variant_defs)
  have h8: "order_A = fst (createOrder bus_down input_A (snd (now bus_down world0)))"
    by (simp add: createOrder_def now_def scenario_defs variant_defs)
  have c: "senderClose bus_down = None" "clientClose bus_down = None"
    "uploadCalls world0 = 0" "sendCalls world0 = 0" "closeCalls world0 = 0"
    "createCalls world0 = 0" "blobs world0 = Map.empty"
    "sendMessages bus_down 0 \<noteq> None" "sendMessages bus_down 1 \<noteq> None"
    "sendMessages bus_down 2 \<noteq> None"
    by (simp_all add: scenario_defs variant_defs)
  have first: "i = 0" if "\<forall>k<i. createIfNotExists bus_down k \<noteq> None" for i
    using that by (cases i) (auto simp: scenario_defs variant_defs)
  have first': "i = 0" if "\<forall>k<i. upload bus_down k \<noteq> None" for i
    using that by (cases i) (auto simp: scenario_defs variant_defs)
  from notification_exhausted [OF h1 h2 h3 h4 h5 h6 h7 h8]
  obtain response w' where p: "processOrder bus_down world0 = Some (response, w')"
    and r: "response = \<lparr>res_status = 500,
                 res_jsonBody = \<lparr>success = False, orderId = None,
                                  message = ''Failed to send order message'',
                                  errors = None, code = Some ''MESSAGING_ERROR''\<rparr>\<rparr>"
    and k: "sendCalls w' = 3" "blobs w' = [blobName order_A \<mapsto> order_blob order_A]"
      "closeCalls w' = 1"
    and cc: "\<exists>i<2. createCalls w' = Suc i \<and> (\<forall>k<i. createIfNotExists bus_down k \<noteq> None)"
    and uc: "\<exists>i<3. uploadCalls w' = Suc i \<and> (\<forall>k<i. upload bus_down k \<noteq> None)"
    using c by auto
  from cc first have "createCalls w' = 1" by auto
  moreover from uc first' have "uploadCalls w' = 1" by auto
  ultimately show ?thesis
    using h1 h2 c p r k by simp
qed

text \<open>
  C10 (what the code does). \<open>processOrder\<close> reads two variables of the
  environment, the two connection strings, and no flag. With
  \<open>SKIP_SERVICE_BUS\<close> set to \<open>true\<close>, a valid payload, both clients
  constructed and the order stored, the send is attempted all the same; and
  when the send rejects at each of its three attempts the request does not
  complete with a success result.
\<close>

theorem skip_flag_not_read:
  assumes "env ext ''SKIP_SERVICE_BUS'' = Some ''true''"
    and "parseRequestBody ext = Inr requestBody"
    and "validateInput ext requestBody = Inr input"
    and "fromConnectionString ext (env_or_empty ext ''AzureWebJobsStorage'') = None"
    and "newServiceBusClient ext (env_or_empty ext ''ServiceBusConnectionString'') = None"
    and "\<exists>i<2. createIfNotExists ext (createCalls w + i) = None"
    and "\<exists>i<3. upload ext (uploadCalls w + i) = None"
  shows "\<exists>response w'. processOrder ext w = Some (response, w')
         \<and> sendCalls w < sendCalls w'
         \<and> ((\<forall>k<3. sendMessages ext (sendCalls w + k) \<noteq> None) \<longrightarrow>
              \<not> success (res_jsonBody response))"
proof -
  let ?st = "StorageService (env_or_empty ext ''AzureWebJobsStorage'')"
  let ?ms = "MessagingService (env_or_empty ext ''ServiceBusConnectionString'') ''order-processing''"
  let ?order = "fst (createOrder ext input (snd (now ext w)))"
  let ?w1 = "snd (createOrder ext input (snd (now ext w)))"
  from assms(6,7) stages_send_attempted [of ext ?w1 ?st ?ms ?order]
  obtain outcome w1' where g: "gateway_stages ext ?st ?ms ?order ?w1 = Some (outcome, w1')"
    and sent: "sendCalls w < sendCalls w1'"
    by (auto simp: createOrder_counters)
  from processOrder_after_stages [OF assms(2-5) g]
  obtain response w' where p: "processOrder ext w = Some (response, w')"
    and fail: "\<not> success (res_jsonBody (case outcome of Inr ok \<Rightarrow> ok
                                          | Inl error \<Rightarrow> handleError error))
                \<longrightarrow> \<not> success (res_jsonBody response)"
    and k: "sendCalls w' = sendCalls w1'"
    by auto
  have "\<not> success (res_jsonBody response)"
    if "\<forall>k<3. sendMessages ext (sendCalls w + k) \<noteq> None"
  proof -
    from assms(6,7) that stages_send_exhausted [of ext ?w1 ?st ?ms ?order]
    have "\<exists>w''. gateway_stages ext ?st ?ms ?order ?w1 =
      Some (Inl (OrderProcessingError ''Failed to send order message'' ''MESSAGING_ERROR'' 500),
            w'')"
      by (auto simp: createOrder_counters)
    with g have "outcome = Inl (OrderProcessingError ''Failed to send order message''
                                  ''MESSAGING_ERROR'' 500)"
      by auto
    with fail show ?thesis by simp
  qed
  with p sent k show ?thesis by simp
qed

text \<open>Witness for C10: Scenario A with the flag set and a queue that rejects
  every send.\<close>

theorem skip_flag_not_read_witness:
  "env skip_flag_set ''SKIP_SERVICE_BUS'' = Some ''true''
   \<and> parseRequestBody skip_flag_set = Inr payload_A
   \<and> validateInput skip_flag_set payload_A = Inr input_A
   \<and> sendMessages skip_flag_set 0 \<noteq> None \<and> sendMessages skip_flag_set 1 \<noteq> None
   \<and> sendMessages skip_flag_set 2 \<noteq> None
   \<and> (\<exists>response w'. processOrder skip_flag_set world0 = Some (response, w')
         \<and> sendCalls world0 < sendCalls w'
         \<and> \<not> success (res_jsonBody response))"
proof -
  have h0: "env skip_flag_set ''SKIP_SERVICE_BUS'' = Some ''true''"
    by (simp add: scenario_defs variant_defs)
  have h1: "parseRequestBody skip_flag_set = Inr payload_A"
    by (simp add: parseRequestBody_def scenario_defs variant_defs)
  have h2: "validateInput skip_flag_set payload_A = Inr input_A"
    by (simp add: schema_defs scenario_defs variant_defs)
  have h3: "fromConnectionString skip_flag_set
              (env_or_empty skip_flag_set ''AzureWebJobsStorage'') = None"
    by (simp add: env_or_empty_def scenario_defs variant_defs)
  have h4: "newServiceBusClient skip_flag_set
              (env_or_empty skip_flag_set ''ServiceBusConnectionString'') = None"
    by (simp add: env_or_empty_def scenario_defs variant_defs)
  have h5: "\<exists>i<2. createIfNotExists skip_flag_set (createCalls world0 + i) = None"
    by (intro exI [of _ 0]) (simp add: scenario_defs variant_defs)
  have h6: "\<exists>i<3. upload skip_flag_set (uploadCalls world0 + i) = None"
    by (intro exI [of _ 0]) (simp add: scenario_defs variant_defs)
  have h7: "\<forall>k<3. sendMessages skip_flag_set (sendCalls world0 + k) \<noteq> None"
    by (simp add: scenario_defs variant_defs)
  have c: "sendMessages skip_flag_set 0 \<noteq> None" "sendMessages skip_flag_set 1 \<noteq> None"
    "sendMessages skip_flag_set 2 \<noteq> None"
    by (simp_all add: scenario_defs variant_defs)
  from skip_flag_not_read [OF h0 h1 h2 h3 h4 h5 h6] h7
  have "\<exists>response w'. processOrder skip_flag_set world0 = Some (response, w')
         \<and> sendCalls world0 < sendCalls w'
         \<and> \<not> success (res_jsonBody response)"
    by blast
  with h0 h1 h2 c show ?thesis by simp
qed

section \<open>Release of the notification gateway\<close>

text \<open>
  C1 (as amended). \<open>MessagingService.close\<close> is called exactly once in a request
  that gets as far as holding both service objects (the body parses, the input
  validates, both constructors return), whatever the gateway stages and
  \<open>close\<close> itself then do; in every other request, where no
  \<open>MessagingService\<close> exists, it is not called. In both cases the request
  returns a response.
\<close>

theorem close_once_when_services_constructed:
  "\<exists>response w'. processOrder ext w = Some (response, w')
     \<and> closeCalls w' = (if services_constructed ext then Suc (closeCalls w) else closeCalls w)"
proof -
  from pipeline_closeCalls [of ext "snd (now ext w)"]
  obtain r w2 where p: "pipeline ext (snd (now ext w)) = Some (r, w2)"
    and c: "closeCalls w2 = (if services_constructed ext then Suc (closeCalls (snd (now ext w)))
                             else closeCalls (snd (now ext w)))"
    by blast
  then show ?thesis
    by (cases r) (simp_all add: processOrder_def now_def)
qed

text \<open>Counterexample to C1 as stated: a body that is not JSON, and a payload
  that fails validation; \<open>close\<close> is not called in either request.\<close>

theorem close_not_called_before_construction:
  "closeCalls world0 = 0
   \<and> (\<exists>response w'. processOrder malformed world0 = Some (response, w') \<and> closeCalls w' = 0)
   \<and> (\<exists>response w'. processOrder dates_reversed world0 = Some (response, w')
         \<and> closeCalls w' = 0)"
  by (simp add: pipeline_defs schema_defs scenario_defs variant_defs)

text \<open>Witness for C1: Scenario A, and Scenario D with a \<open>close\<close> that rejects.\<close>

theorem close_once_witness:
  "services_constructed healthy
   \<and> (\<exists>response w'. processOrder healthy world0 = Some (response, w') \<and> closeCalls w' = 1)
   \<and> services_constructed storage_down_close_fails
   \<and> (\<exists>response w'. processOrder storage_down_close_fails world0 = Some (response, w')
         \<and> closeCalls w' = 1)"
proof -
  have h1: "services_constructed healthy"
    by (simp add: services_constructed_def parseRequestBody_def schema_defs env_or_empty_def
          scenario_defs)
  have h2: "services_constructed storage_down_close_fails"
    by (simp add: services_constructed_def parseRequestBody_def schema_defs env_or_empty_def
          scenario_defs variant_defs)
  from close_once_when_services_constructed [of healthy world0]
    close_once_when_services_constructed [of storage_down_close_fails world0] h1 h2
  show ?thesis
    by (simp add: world0_def)
qed

end
